theory Spec2Isabelle
  imports Complex_Main "HOL-Library.Sublist"
begin

section \<open>The mint loop of \<open>mint.py\<close>\<close>

text \<open>
  \<open>mint.py\<close> reads its configuration from the environment once, sets up a Web3 client
  (\<open>setup_web3\<close>) and then runs one loop (\<open>main\<close>) that checks the balance, builds, signs
  and broadcasts a fixed transaction and waits for its receipt. Everything the program
  shows to the outside is a printed log line, a call to the chain client or a sleep. The
  model keeps these three kinds of observation, in the order in which they happen, in a
  trace; the chain client and the wall clock are parameters of the run.
\<close>

subsection \<open>Configuration\<close>

text \<open>
  The module-level constants, after their conversion from the environment
  (\<open>int(..., 16)\<close>, \<open>int(...)\<close>, \<open>float(...)\<close>). Python integers are unbounded and may be
  negative. A finite Python float is a rational number, and the only arithmetic done on
  \<open>MIN_BALANCE_SOMI\<close> is the comparison with an exact decimal, which Python carries out
  exactly; both float constants are therefore rationals here.
\<close>

record config =
  RPC_URL :: string
  PRIVATE_KEY :: string
  FROM_ADDRESS :: string
  TO_ADDRESS :: string
  CHAIN_ID :: int
  GAS_LIMIT :: int
  MAX_FEE_PER_GAS :: int
  MAX_PRIORITY_FEE_PER_GAS :: int
  MAX_ITERATIONS :: int
  DELAY_SECONDS :: rat
  PROXY_URL :: "string option"
  MIN_BALANCE_SOMI :: rat
  BASE_DATA :: string

subsection \<open>Exceptions, requests and receipts\<close>

text \<open>
  The three exceptions that \<open>setup_web3\<close> raises itself, and an exception raised inside
  the client library, with its message:
  \<^item> \<open>NeedWeb3\<close>: "Need web3.py 6.0.0+. Run 'pip install web3>=6.0.0'."
  \<^item> \<open>RpcConnectionFailed\<close>: "RPC connection failed. Check URL or network."
  \<^item> \<open>KeyAddressMismatch\<close>: "Private key and from address don't match."
\<close>

datatype exn = NeedWeb3 | RpcConnectionFailed | KeyAddressMismatch | Raised string

text \<open>The dictionary built under \<open># Build tx\<close>.\<close>

record transaction =
  tx_from :: string
  tx_to :: string
  tx_chainId :: int
  tx_gas :: int
  tx_maxFeePerGas :: int
  tx_maxPriorityFeePerGas :: int
  tx_nonce :: int
  tx_data :: string

text \<open>The dictionary handed to \<open>estimate_gas\<close>: no gas and no fee fields.\<close>

record call_request =
  call_from :: string
  call_to :: string
  call_data :: string

record receipt =
  blockNumber :: int
  status :: int

subsection \<open>The chain client\<close>

text \<open>
  The client library is not part of the program; the run is parametrised by what it
  answers. An operation either raises (\<open>Inl\<close>) or returns (\<open>Inr\<close>). The operations used
  inside the loop take, as first argument, the number of calls of that operation made
  before: a pass of the loop that goes on to the next pass has called each of them
  exactly once, so this number is the number of passes completed so far. \<open>from_wei\<close> is
  the conversion \<open>w3.from_wei(balance, 'ether')\<close>; \<open>from_key\<close> yields the address of the
  account derived from a private key; \<open>web3_version\<close> is \<open>web3.__version__\<close>.
\<close>

record client =
  web3_version :: string
  is_connected :: "exn + bool"
  from_key :: "string \<Rightarrow> exn + string"
  get_balance :: "nat \<Rightarrow> string \<Rightarrow> exn + int"
  from_wei :: "int \<Rightarrow> exn + rat"
  get_transaction_count :: "nat \<Rightarrow> string \<Rightarrow> exn + int"
  estimate_gas :: "nat \<Rightarrow> call_request \<Rightarrow> exn + int"
  sign_transaction :: "nat \<Rightarrow> transaction \<Rightarrow> string \<Rightarrow> exn + string"
  send_raw_transaction :: "nat \<Rightarrow> string \<Rightarrow> exn + string"
  wait_for_transaction_receipt :: "nat \<Rightarrow> string \<Rightarrow> int \<Rightarrow> exn + receipt"

subsection \<open>Observations\<close>

datatype color = WHITE | GREEN | RED | CYAN | YELLOW | MAGENTA

text \<open>
  One constructor for each format string passed to \<open>log\<close>, with the values it
  interpolates:
  \<^item> \<open>WebConnected\<close>: "Web3 connected, account ready. Time to mint!"
  \<^item> \<open>SetupCrashed e\<close>: "Setup crashed: {e}"
  \<^item> \<open>TryingMint i n\<close>: "Iteration {i}/{n}: Trying mint ..."
  \<^item> \<open>LowBalance b m\<close>: "Low balance ({b:.4f} SOMI < {m} SOMI). Stopping."
  \<^item> \<open>BalanceGood b\<close>: "Balance: {b:.4f} SOMI. Good to go."
  \<^item> \<open>BalanceCheckFailed e\<close>: "Balance check failed: {e}. Gracefully stopping."
  \<^item> \<open>CouldntBuildTx e\<close>: "Couldn't build tx: {e}. Gracefully stopping."
  \<^item> \<open>GasWarning g l\<close>: "Gas warning: Estimate {g} > limit {l}."
  \<^item> \<open>GasEstimationFailed e\<close>: "Gas estimation failed: {e}. Gracefully stopping."
  \<^item> \<open>SigningFailed e\<close>: "Signing failed: {e}. Gracefully stopping."
  \<^item> \<open>TxSent h\<close>: "Tx sent! Hash: {w3.to_hex(h)}"
  \<^item> \<open>MinedInBlock b\<close>: "Mined in block {b}"
  \<^item> \<open>MintSuccessful\<close>: "Mint successful!"
  \<^item> \<open>TxFailed\<close>: "Tx failed. Gracefully stopping."
  \<^item> \<open>TxSendFailed e\<close>: "Tx send failed: {e}. Gracefully stopping."
  \<^item> \<open>Chilling d\<close>: "Chilling for {d}s..."
  \<^item> \<open>HitMaxIterations n\<close>: "Hit max iterations ({n}). Done!"
  \<^item> \<open>StoppedEarly\<close>: "Stopped early-check errors above."
\<close>

datatype message =
    WebConnected
  | SetupCrashed exn
  | TryingMint int int
  | LowBalance rat rat
  | BalanceGood rat
  | BalanceCheckFailed exn
  | CouldntBuildTx exn
  | GasWarning int int
  | GasEstimationFailed exn
  | SigningFailed exn
  | TxSent string
  | MinedInBlock int
  | MintSuccessful
  | TxFailed
  | TxSendFailed exn
  | Chilling rat
  | HitMaxIterations int
  | StoppedEarly

datatype chain_call =
    IsConnected
  | FromKey string
  | GetBalance string
  | GetTransactionCount string
  | EstimateGas call_request
  | SignTransaction transaction string
  | SendRawTransaction string
  | WaitForTransactionReceipt string int

text \<open>
  An observation: a printed line (colour, level, timestamp, message), a call of the
  client, or a sleep. The type parameter is the type of timestamps.
\<close>

datatype 't obs =
    Printed color string 't message
  | Called chain_call
  | Slept rat

type_synonym timestamp = string

type_synonym trace = "timestamp obs list"

text \<open>
  \<open>datetime.now\<close>, already formatted: the reading of the wall clock when the observation
  at a given position of the trace is made.
\<close>

type_synonym clock = "nat \<Rightarrow> timestamp"

text \<open>\<open>log(message, color, level="INFO")\<close>; no call site passes a level.\<close>

definition log_line :: "clock \<Rightarrow> trace \<Rightarrow> message \<Rightarrow> color \<Rightarrow> trace" where
  "log_line clk tr m c = tr @ [Printed c ''INFO'' (clk (length tr)) m]"

definition call :: "trace \<Rightarrow> chain_call \<Rightarrow> trace" where
  "call tr c = tr @ [Called c]"

text \<open>The trace without its timestamps.\<close>

definition events :: "trace \<Rightarrow> unit obs list" where
  "events tr = map (map_obs (\<lambda>t. ())) tr"

subsection \<open>Strings\<close>

text \<open>
  Python's \<open><\<close> on \<open>str\<close>: lexicographic by code point, a proper prefix being smaller.
\<close>

fun str_less :: "string \<Rightarrow> string \<Rightarrow> bool" where
  "str_less [] [] = False"
| "str_less [] (y # ys) = True"
| "str_less (x # xs) [] = False"
| "str_less (x # xs) (y # ys) =
     ((of_char x :: nat) < of_char y \<or> (x = y \<and> str_less xs ys))"

text \<open>\<open>str.lower\<close> on ASCII text (addresses are hexadecimal ASCII).\<close>

definition lower_char :: "char \<Rightarrow> char" where
  "lower_char c =
     (case map_of (zip ''ABCDEFGHIJKLMNOPQRSTUVWXYZ'' ''abcdefghijklmnopqrstuvwxyz'') c of
        Some d \<Rightarrow> d
      | None \<Rightarrow> c)"

definition lower :: "string \<Rightarrow> string" where
  "lower s = map lower_char s"

subsection \<open>Setup\<close>

text \<open>
  \<open>setup_web3\<close>: the version test, the connectivity test, the derivation of the account
  and the comparison of its address with \<open>FROM_ADDRESS\<close>, in this order. The result is
  the exception raised or the address of the account.
\<close>

definition setup_web3 :: "config \<Rightarrow> client \<Rightarrow> trace \<Rightarrow> (exn + string) \<times> trace" where
  "setup_web3 cfg cl tr =
     (if str_less (web3_version cl) ''6.0.0'' then (Inl NeedWeb3, tr)
      else
        let tr1 = call tr IsConnected in
        case is_connected cl of
          Inl e \<Rightarrow> (Inl e, tr1)
        | Inr reachable \<Rightarrow>
            if \<not> reachable then (Inl RpcConnectionFailed, tr1)
            else
              let tr2 = call tr1 (FromKey (PRIVATE_KEY cfg)) in
              case from_key cl (PRIVATE_KEY cfg) of
                Inl e \<Rightarrow> (Inl e, tr2)
              | Inr address \<Rightarrow>
                  if lower address \<noteq> lower (FROM_ADDRESS cfg)
                  then (Inl KeyAddressMismatch, tr2)
                  else (Inr address, tr2))"

subsection \<open>One pass of the loop\<close>

text \<open>
  A block of the loop body either executes \<open>return\<close> (\<open>Return\<close>, with the trace so far) or
  falls through to the next block (\<open>Continue\<close>, with the value it bound).
\<close>

datatype 'a flow = Return trace | Continue 'a trace

text \<open>\<open># Balance check\<close>. The \<open>except\<close> branch logs and does not return.\<close>

definition balance_check :: "config \<Rightarrow> client \<Rightarrow> clock \<Rightarrow> nat \<Rightarrow> trace \<Rightarrow> unit flow" where
  "balance_check cfg cl clk n tr =
     (let tr1 = call tr (GetBalance (FROM_ADDRESS cfg)) in
      case get_balance cl n (FROM_ADDRESS cfg) of
        Inl e \<Rightarrow> Continue () (log_line clk tr1 (BalanceCheckFailed e) RED)
      | Inr balance \<Rightarrow>
          (case from_wei cl balance of
             Inl e \<Rightarrow> Continue () (log_line clk tr1 (BalanceCheckFailed e) RED)
           | Inr balance_eth \<Rightarrow>
               if balance_eth < MIN_BALANCE_SOMI cfg
               then Return (log_line clk tr1
                      (LowBalance balance_eth (MIN_BALANCE_SOMI cfg)) YELLOW)
               else Continue () (log_line clk tr1 (BalanceGood balance_eth) WHITE)))"

text \<open>\<open># Build tx\<close>: the dictionary, given the nonce.\<close>

definition new_transaction :: "config \<Rightarrow> int \<Rightarrow> transaction" where
  "new_transaction cfg nonce =
     \<lparr>tx_from = FROM_ADDRESS cfg, tx_to = TO_ADDRESS cfg, tx_chainId = CHAIN_ID cfg,
      tx_gas = GAS_LIMIT cfg, tx_maxFeePerGas = MAX_FEE_PER_GAS cfg,
      tx_maxPriorityFeePerGas = MAX_PRIORITY_FEE_PER_GAS cfg,
      tx_nonce = nonce, tx_data = BASE_DATA cfg\<rparr>"

definition build_tx :: "config \<Rightarrow> client \<Rightarrow> clock \<Rightarrow> nat \<Rightarrow> trace \<Rightarrow> transaction flow" where
  "build_tx cfg cl clk n tr =
     (let tr1 = call tr (GetTransactionCount (FROM_ADDRESS cfg)) in
      case get_transaction_count cl n (FROM_ADDRESS cfg) of
        Inl e \<Rightarrow> Return (log_line clk tr1 (CouldntBuildTx e) RED)
      | Inr nonce \<Rightarrow> Continue (new_transaction cfg nonce) tr1)"

text \<open>\<open># Gas estimate\<close>. The estimate is compared and then dropped.\<close>

definition estimate_request :: "config \<Rightarrow> call_request" where
  "estimate_request cfg =
     \<lparr>call_from = FROM_ADDRESS cfg, call_to = TO_ADDRESS cfg, call_data = BASE_DATA cfg\<rparr>"

definition gas_estimate :: "config \<Rightarrow> client \<Rightarrow> clock \<Rightarrow> nat \<Rightarrow> trace \<Rightarrow> unit flow" where
  "gas_estimate cfg cl clk n tr =
     (let request = estimate_request cfg;
          tr1 = call tr (EstimateGas request) in
      case estimate_gas cl n request of
        Inl e \<Rightarrow> Return (log_line clk tr1 (GasEstimationFailed e) YELLOW)
      | Inr estimated_gas \<Rightarrow>
          if estimated_gas > GAS_LIMIT cfg
          then Continue () (log_line clk tr1 (GasWarning estimated_gas (GAS_LIMIT cfg)) YELLOW)
          else Continue () tr1)"

text \<open>\<open># Sign tx\<close>.\<close>

definition sign_tx ::
  "config \<Rightarrow> client \<Rightarrow> clock \<Rightarrow> nat \<Rightarrow> transaction \<Rightarrow> trace \<Rightarrow> string flow" where
  "sign_tx cfg cl clk n tx tr =
     (let tr1 = call tr (SignTransaction tx (PRIVATE_KEY cfg)) in
      case sign_transaction cl n tx (PRIVATE_KEY cfg) of
        Inl e \<Rightarrow> Return (log_line clk tr1 (SigningFailed e) RED)
      | Inr raw_transaction \<Rightarrow> Continue raw_transaction tr1)"

text \<open>
  \<open># Send tx\<close> and \<open># Wait for receipt\<close>, one \<open>try\<close> block. It binds the new value of
  \<open>iteration\<close>. The \<open>else\<close> branch for a receipt whose status is not 1 logs and does not
  return.
\<close>

definition send_tx ::
  "config \<Rightarrow> client \<Rightarrow> clock \<Rightarrow> nat \<Rightarrow> string \<Rightarrow> int \<Rightarrow> trace \<Rightarrow> int flow" where
  "send_tx cfg cl clk n raw_transaction iteration tr =
     (let tr1 = call tr (SendRawTransaction raw_transaction) in
      case send_raw_transaction cl n raw_transaction of
        Inl e \<Rightarrow> Return (log_line clk tr1 (TxSendFailed e) RED)
      | Inr tx_hash \<Rightarrow>
          let tr2 = log_line clk tr1 (TxSent tx_hash) GREEN;
              tr3 = call tr2 (WaitForTransactionReceipt tx_hash 300) in
          (case wait_for_transaction_receipt cl n tx_hash 300 of
             Inl e \<Rightarrow> Return (log_line clk tr3 (TxSendFailed e) RED)
           | Inr rcpt \<Rightarrow>
               let tr4 = log_line clk tr3 (MinedInBlock (blockNumber rcpt)) CYAN in
               if status rcpt = 1
               then Continue (iteration + 1) (log_line clk tr4 MintSuccessful GREEN)
               else Continue iteration (log_line clk tr4 TxFailed RED)))"

text \<open>\<open># Pause\<close>.\<close>

definition pause :: "config \<Rightarrow> clock \<Rightarrow> int \<Rightarrow> trace \<Rightarrow> trace" where
  "pause cfg clk iteration tr =
     (if iteration < MAX_ITERATIONS cfg
      then log_line clk tr (Chilling (DELAY_SECONDS cfg)) WHITE @ [Slept (DELAY_SECONDS cfg)]
      else tr)"

text \<open>The body of the \<open>while\<close> loop: the blocks in the order of the source.\<close>

definition mint_attempt ::
  "config \<Rightarrow> client \<Rightarrow> clock \<Rightarrow> nat \<Rightarrow> int \<Rightarrow> trace \<Rightarrow> int flow" where
  "mint_attempt cfg cl clk n iteration tr =
     (let tr0 = log_line clk tr (TryingMint (iteration + 1) (MAX_ITERATIONS cfg)) CYAN in
      case balance_check cfg cl clk n tr0 of
        Return t \<Rightarrow> Return t
      | Continue u tr1 \<Rightarrow>
      (case build_tx cfg cl clk n tr1 of
        Return t \<Rightarrow> Return t
      | Continue tx tr2 \<Rightarrow>
      (case gas_estimate cfg cl clk n tr2 of
        Return t \<Rightarrow> Return t
      | Continue u tr3 \<Rightarrow>
      (case sign_tx cfg cl clk n tx tr3 of
        Return t \<Rightarrow> Return t
      | Continue raw_transaction tr4 \<Rightarrow>
      (case send_tx cfg cl clk n raw_transaction iteration tr4 of
        Return t \<Rightarrow> Return t
      | Continue iteration' tr5 \<Rightarrow>
          Continue iteration' (pause cfg clk iteration' tr5))))))"

subsection \<open>The run\<close>

text \<open>
  How \<open>main\<close> came to its end: in the handler of the setup, at a \<open>return\<close> inside the
  loop, or at the end of the function after the loop condition had become false.
  \<open>successes\<close> is the number of times \<open>iteration += 1\<close> was executed.
\<close>

datatype ending = SetupAborted | ReturnedEarly | LoopExited

record outcome =
  ending :: ending
  successes :: int
  trace :: trace

text \<open>
  The \<open>while\<close> loop and the summary after it. The loop need not end (a receipt whose
  status is not 1 leaves \<open>iteration\<close> as it is and the loop goes on): a run that does not
  return has the value \<open>None\<close>.
\<close>

partial_function (option) main_loop ::
  "config \<Rightarrow> client \<Rightarrow> clock \<Rightarrow> nat \<Rightarrow> int \<Rightarrow> trace \<Rightarrow> outcome option" where
  "main_loop cfg cl clk n iteration tr =
     (if iteration < MAX_ITERATIONS cfg then
        (case mint_attempt cfg cl clk n iteration tr of
           Return t \<Rightarrow> Some \<lparr>ending = ReturnedEarly, successes = iteration, trace = t\<rparr>
         | Continue iteration' t \<Rightarrow> main_loop cfg cl clk (Suc n) iteration' t)
      else
        Some \<lparr>ending = LoopExited, successes = iteration,
              trace = (if iteration \<ge> MAX_ITERATIONS cfg
                       then log_line clk tr (HitMaxIterations (MAX_ITERATIONS cfg)) MAGENTA
                       else log_line clk tr StoppedEarly MAGENTA)\<rparr>)"

declare main_loop.simps [code]

definition main :: "config \<Rightarrow> client \<Rightarrow> clock \<Rightarrow> outcome option" where
  "main cfg cl clk =
     (case setup_web3 cfg cl [] of
        (Inl e, tr) \<Rightarrow>
          Some \<lparr>ending = SetupAborted, successes = 0,
                trace = log_line clk tr (SetupCrashed e) RED\<rparr>
      | (Inr account, tr) \<Rightarrow>
          main_loop cfg cl clk 0 0 (log_line clk tr WebConnected GREEN))"

subsection \<open>Reading a trace\<close>

text \<open>The messages printed and the client calls made, in order.\<close>

definition messages :: "'t obs list \<Rightarrow> message list" where
  "messages tr = concat (map (\<lambda>x. case x of Printed c l t m \<Rightarrow> [m] | _ \<Rightarrow> []) tr)"

definition calls :: "'t obs list \<Rightarrow> chain_call list" where
  "calls tr = concat (map (\<lambda>x. case x of Called c \<Rightarrow> [c] | _ \<Rightarrow> []) tr)"

text \<open>The line that opens a pass of the loop.\<close>

fun is_attempt :: "message \<Rightarrow> bool" where
  "is_attempt (TryingMint i n) = True"
| "is_attempt m = False"

text \<open>The two summary lines after the loop.\<close>

fun is_summary :: "message \<Rightarrow> bool" where
  "is_summary (HitMaxIterations n) = True"
| "is_summary StoppedEarly = True"
| "is_summary m = False"

fun is_broadcast :: "chain_call \<Rightarrow> bool" where
  "is_broadcast (SendRawTransaction raw) = True"
| "is_broadcast c = False"

text \<open>The calls that \<open>setup_web3\<close> makes.\<close>

fun is_setup_call :: "chain_call \<Rightarrow> bool" where
  "is_setup_call IsConnected = True"
| "is_setup_call (FromKey k) = True"
| "is_setup_call c = False"

text \<open>
  The passes started, the mints reported as successful and the transactions broadcast
  in a trace.
\<close>

definition attempts :: "'t obs list \<Rightarrow> nat" where
  "attempts tr = length (filter is_attempt (messages tr))"

definition mints :: "'t obs list \<Rightarrow> nat" where
  "mints tr = count_list (messages tr) MintSuccessful"

definition broadcasts :: "'t obs list \<Rightarrow> nat" where
  "broadcasts tr = length (filter is_broadcast (calls tr))"

fun flow_trace :: "'a flow \<Rightarrow> trace" where
  "flow_trace (Return t) = t"
| "flow_trace (Continue a t) = t"

text \<open>A block's way out and the value it bound, with the trace without timestamps.\<close>

fun flow_events :: "'a flow \<Rightarrow> 'a option \<times> unit obs list" where
  "flow_events (Return t) = (None, events t)"
| "flow_events (Continue a t) = (Some a, events t)"

text \<open>What a run shows when the timestamps are left out.\<close>

definition untimed :: "outcome \<Rightarrow> ending \<times> int \<times> unit obs list" where
  "untimed r = (ending r, successes r, events (trace r))"

subsection \<open>Version numbers read as numbers\<close>

text \<open>
  The reading of a version string that the message of the version test has in mind:
  the fields between the dots as decimal numbers, compared field by field. The program
  does not compute it.
\<close>

fun fields :: "string \<Rightarrow> string list" where
  "fields [] = [[]]"
| "fields (c # cs) =
     (if c = CHR ''.'' then [] # fields cs
      else (case fields cs of [] \<Rightarrow> [[c]] | f # fs \<Rightarrow> (c # f) # fs))"

definition decimal :: "string \<Rightarrow> nat" where
  "decimal s = foldl (\<lambda>a c. 10 * a + (of_char c - 48)) 0 s"

fun nums_less :: "nat list \<Rightarrow> nat list \<Rightarrow> bool" where
  "nums_less [] [] = False"
| "nums_less [] (y # ys) = True"
| "nums_less (x # xs) [] = False"
| "nums_less (x # xs) (y # ys) = (x < y \<or> (x = y \<and> nums_less xs ys))"

definition numerically_at_least :: "string \<Rightarrow> string \<Rightarrow> bool" where
  "numerically_at_least v w = (\<not> nums_less (map decimal (fields v)) (map decimal (fields w)))"

subsection \<open>A configuration and some clients\<close>

definition example_config :: "int \<Rightarrow> config" where
  "example_config n =
     \<lparr>RPC_URL = ''http://rpc'', PRIVATE_KEY = ''k1'', FROM_ADDRESS = ''0xAbC1'',
      TO_ADDRESS = ''0xDeF2'', CHAIN_ID = 5031, GAS_LIMIT = 100000,
      MAX_FEE_PER_GAS = 7, MAX_PRIORITY_FEE_PER_GAS = 2, MAX_ITERATIONS = n,
      DELAY_SECONDS = 1, PROXY_URL = None, MIN_BALANCE_SOMI = 1 / 2,
      BASE_DATA = ''0x1249c58b''\<rparr>"

text \<open>A client that answers every call, with a balance of 3 and receipts of status 1.\<close>

definition healthy_client :: client where
  "healthy_client =
     \<lparr>web3_version = ''6.11.0'', is_connected = Inr True,
      from_key = (\<lambda>k. Inr ''0xabc1''),
      get_balance = (\<lambda>n a. Inr (3 * 10 ^ 18)),
      from_wei = (\<lambda>w. Inr (of_int w / 10 ^ 18)),
      get_transaction_count = (\<lambda>n a. Inr (int n)),
      estimate_gas = (\<lambda>n r. Inr 90000),
      sign_transaction = (\<lambda>n tx k. Inr ''raw''),
      send_raw_transaction = (\<lambda>n raw. Inr ''hash''),
      wait_for_transaction_receipt =
        (\<lambda>n h t. Inr \<lparr>blockNumber = 100 + int n, status = 1\<rparr>)\<rparr>"

definition example_clock :: clock where
  "example_clock n = ''2025-01-01 00:00:00 UTC''"

section \<open>Properties\<close>

subsection \<open>Auxiliary facts\<close>

lemmas run_defs = main_def setup_web3_def call_def log_line_def lower_def lower_char_def
  mint_attempt_def balance_check_def build_tx_def gas_estimate_def sign_tx_def send_tx_def
  pause_def new_transaction_def estimate_request_def

lemmas example_defs = example_config_def healthy_client_def example_clock_def

lemma events_log_line [simp]:
  "events (log_line clk tr m c) = events tr @ [Printed c ''INFO'' () m]"
  by (simp add: events_def log_line_def)

lemma events_call [simp]: "events (call tr c) = events tr @ [Called c]"
  by (simp add: events_def call_def)

lemma events_append [simp]: "events (xs @ ys) = events xs @ events ys"
  by (simp add: events_def)

lemma events_Nil [simp]: "events [] = []"
  by (simp add: events_def)

lemma events_Cons [simp]: "events (x # xs) = map_obs (\<lambda>t. ()) x # events xs"
  by (simp add: events_def)

subsection \<open>Setup\<close>

lemma setup_web3_old_version:
  "str_less (web3_version cl) ''6.0.0'' \<Longrightarrow> setup_web3 cfg cl tr = (Inl NeedWeb3, tr)"
  by (simp add: setup_web3_def)

lemma setup_web3_trace:
  "setup_web3 cfg cl [] = (res, tr) \<Longrightarrow>
     tr = [] \<or> tr = [Called IsConnected] \<or>
     tr = [Called IsConnected, Called (FromKey (PRIVATE_KEY cfg))]"
  by (auto simp: setup_web3_def call_def Let_def split: if_splits sum.splits)

lemma setup_web3_ok:
  "setup_web3 cfg cl [] = (Inr a, tr) \<Longrightarrow>
     tr = [Called IsConnected, Called (FromKey (PRIVATE_KEY cfg))]"
  by (auto simp: setup_web3_def call_def Let_def split: if_splits sum.splits)

lemma setup_web3_fails:
  assumes "is_connected cl = Inr False \<or>
     (\<exists>a. from_key cl (PRIVATE_KEY cfg) = Inr a \<and> lower a \<noteq> lower (FROM_ADDRESS cfg))"
  shows "\<exists>e tr. setup_web3 cfg cl [] = (Inl e, tr)"
  using assms by (auto simp: setup_web3_def call_def Let_def split: if_splits sum.splits)

text \<open>
  Claim C7. If the connectivity test answers false, or the address of the account
  derived from the private key differs from \<open>FROM_ADDRESS\<close> after both are lowered, the
  run returns from the handler of the setup: no success is counted, the only line
  printed is "Setup crashed", so no pass of the loop is started, and the only client
  calls made are those of the setup.
\<close>

theorem setup_failure_aborts:
  assumes "is_connected cl = Inr False \<or>
     (\<exists>a. from_key cl (PRIVATE_KEY cfg) = Inr a \<and> lower a \<noteq> lower (FROM_ADDRESS cfg))"
  shows "\<exists>r e. main cfg cl clk = Some r \<and> ending r = SetupAborted \<and> successes r = 0 \<and>
           messages (trace r) = [SetupCrashed e] \<and>
           list_all is_setup_call (calls (trace r))"
proof -
  from setup_web3_fails [OF assms] obtain e tr where s: "setup_web3 cfg cl [] = (Inl e, tr)"
    by blast
  from setup_web3_trace [OF s] have
    "messages (log_line clk tr (SetupCrashed e) RED) = [SetupCrashed e] \<and>
     list_all is_setup_call (calls (log_line clk tr (SetupCrashed e) RED))"
    by (auto simp: messages_def calls_def log_line_def)
  with s show ?thesis by (simp add: main_def)
qed

theorem setup_failure_aborts_witness:
  "is_connected (healthy_client\<lparr>is_connected := Inr False\<rparr>) = Inr False \<and>
   (\<exists>r e. main (example_config 3) (healthy_client\<lparr>is_connected := Inr False\<rparr>)
             example_clock = Some r \<and>
      ending r = SetupAborted \<and> successes r = 0 \<and> messages (trace r) = [SetupCrashed e] \<and>
      list_all is_setup_call (calls (trace r))) \<and>
   from_key (healthy_client\<lparr>from_key := \<lambda>k. Inr ''0xabc2''\<rparr>)
     (PRIVATE_KEY (example_config 3)) = Inr ''0xabc2'' \<and>
   lower ''0xabc2'' \<noteq> lower (FROM_ADDRESS (example_config 3)) \<and>
   (\<exists>r e. main (example_config 3) (healthy_client\<lparr>from_key := \<lambda>k. Inr ''0xabc2''\<rparr>)
             example_clock = Some r \<and>
      ending r = SetupAborted \<and> successes r = 0 \<and> messages (trace r) = [SetupCrashed e] \<and>
      list_all is_setup_call (calls (trace r)))"
proof -
  have a: "is_connected (healthy_client\<lparr>is_connected := Inr False\<rparr>) = Inr False"
    by simp
  have b: "from_key (healthy_client\<lparr>from_key := \<lambda>k. Inr ''0xabc2''\<rparr>)
             (PRIVATE_KEY (example_config 3)) = Inr ''0xabc2''"
    by simp
  have c: "lower ''0xabc2'' \<noteq> lower (FROM_ADDRESS (example_config 3))"
    by (simp add: example_config_def lower_def lower_char_def)
  from a have h1: "is_connected (healthy_client\<lparr>is_connected := Inr False\<rparr>) = Inr False \<or>
     (\<exists>a. from_key (healthy_client\<lparr>is_connected := Inr False\<rparr>)
            (PRIVATE_KEY (example_config 3)) = Inr a \<and>
          lower a \<noteq> lower (FROM_ADDRESS (example_config 3)))"
    by (rule disjI1)
  from b c have h2:
    "is_connected (healthy_client\<lparr>from_key := \<lambda>k. Inr ''0xabc2''\<rparr>) = Inr False \<or>
     (\<exists>a. from_key (healthy_client\<lparr>from_key := \<lambda>k. Inr ''0xabc2''\<rparr>)
            (PRIVATE_KEY (example_config 3)) = Inr a \<and>
          lower a \<noteq> lower (FROM_ADDRESS (example_config 3)))"
    by blast
  from a b c setup_failure_aborts [OF h1, of example_clock]
    setup_failure_aborts [OF h2, of example_clock]
  show ?thesis by blast
qed

text \<open>
  Claim C10. The version test \<open>web3.__version__ < "6.0.0"\<close> compares strings. A version
  string that is at least 6.0.0 when read as numbers but smaller than "6.0.0" as a
  string, such as "10.0.0", makes \<open>setup_web3\<close> raise the version exception before any
  call of the client, and the run ends in the handler of the setup with the single line
  "Setup crashed".
\<close>

theorem version_test_is_lexicographic:
  assumes "numerically_at_least (web3_version cl) ''6.0.0''"
    and "str_less (web3_version cl) ''6.0.0''"
  shows "setup_web3 cfg cl [] = (Inl NeedWeb3, []) \<and>
         main cfg cl clk =
           Some \<lparr>ending = SetupAborted, successes = 0,
                 trace = [Printed RED ''INFO'' (clk 0) (SetupCrashed NeedWeb3)]\<rparr>"
  using assms(2) by (simp add: main_def setup_web3_old_version log_line_def)

theorem version_test_is_lexicographic_witness:
  "numerically_at_least ''10.0.0'' ''6.0.0'' \<and> str_less ''10.0.0'' ''6.0.0'' \<and>
   main (example_config 3) (healthy_client\<lparr>web3_version := ''10.0.0''\<rparr>) example_clock =
     Some \<lparr>ending = SetupAborted, successes = 0,
           trace = [Printed RED ''INFO'' ''2025-01-01 00:00:00 UTC'' (SetupCrashed NeedWeb3)]\<rparr>"
proof -
  have n: "numerically_at_least
             (web3_version (healthy_client\<lparr>web3_version := ''10.0.0''\<rparr>)) ''6.0.0''"
    by (simp add: numerically_at_least_def decimal_def)
  have l: "str_less (web3_version (healthy_client\<lparr>web3_version := ''10.0.0''\<rparr>)) ''6.0.0''"
    by simp
  show ?thesis
    using version_test_is_lexicographic [OF n l, of "example_config 3" example_clock] n l
    by (simp add: example_clock_def)
qed

subsection \<open>The loop\<close>

lemma main_loop_return:
  "iteration < MAX_ITERATIONS cfg \<Longrightarrow> mint_attempt cfg cl clk n iteration tr = Return t \<Longrightarrow>
   main_loop cfg cl clk n iteration tr =
     Some \<lparr>ending = ReturnedEarly, successes = iteration, trace = t\<rparr>"
  by (subst main_loop.simps) simp

lemma main_loop_continue:
  "iteration < MAX_ITERATIONS cfg \<Longrightarrow>
   mint_attempt cfg cl clk n iteration tr = Continue iteration' t \<Longrightarrow>
   main_loop cfg cl clk n iteration tr = main_loop cfg cl clk (Suc n) iteration' t"
  by (subst main_loop.simps) simp

lemma main_loop_exit:
  "\<not> iteration < MAX_ITERATIONS cfg \<Longrightarrow>
   main_loop cfg cl clk n iteration tr =
     Some \<lparr>ending = LoopExited, successes = iteration,
           trace = log_line clk tr (HitMaxIterations (MAX_ITERATIONS cfg)) MAGENTA\<rparr>"
  by (subst main_loop.simps) simp

lemma balance_check_low:
  assumes "get_balance cl n (FROM_ADDRESS cfg) = Inr b" and "from_wei cl b = Inr e"
    and "e < MIN_BALANCE_SOMI cfg"
  shows "balance_check cfg cl clk n tr =
     Return (log_line clk (call tr (GetBalance (FROM_ADDRESS cfg)))
               (LowBalance e (MIN_BALANCE_SOMI cfg)) YELLOW)"
  using assms by (simp add: balance_check_def)

text \<open>
  Claim C5. In a pass entered with \<open>iteration = k - 1\<close> (the pass announced as
  "Iteration k"), if the balance query and the conversion succeed and the balance is
  below \<open>MIN_BALANCE_SOMI\<close>, the run returns there: what it adds to the trace is the
  announcement, the balance query and the yellow low-balance line, so nothing is built,
  signed or broadcast in this pass, and \<open>k - 1\<close> successes are counted. When this is the
  first pass of a run whose setup succeeded, the whole run consists of the two calls of
  the setup, the line of the setup, and these three observations.
\<close>

theorem low_balance_stops:
  assumes "iteration < MAX_ITERATIONS cfg"
    and "get_balance cl n (FROM_ADDRESS cfg) = Inr b" and "from_wei cl b = Inr e"
    and "e < MIN_BALANCE_SOMI cfg"
  shows "main_loop cfg cl clk n iteration tr =
           Some \<lparr>ending = ReturnedEarly, successes = iteration,
                 trace = tr @
                   [Printed CYAN ''INFO'' (clk (length tr))
                      (TryingMint (iteration + 1) (MAX_ITERATIONS cfg)),
                    Called (GetBalance (FROM_ADDRESS cfg)),
                    Printed YELLOW ''INFO'' (clk (length tr + 2))
                      (LowBalance e (MIN_BALANCE_SOMI cfg))]\<rparr> \<and>
         (n = 0 \<and> iteration = 0 \<and> (\<exists>a t. setup_web3 cfg cl [] = (Inr a, t)) \<longrightarrow>
            map_option untimed (main cfg cl clk) =
              Some (ReturnedEarly, 0,
                [Called IsConnected, Called (FromKey (PRIVATE_KEY cfg)),
                 Printed GREEN ''INFO'' () WebConnected,
                 Printed CYAN ''INFO'' () (TryingMint 1 (MAX_ITERATIONS cfg)),
                 Called (GetBalance (FROM_ADDRESS cfg)),
                 Printed YELLOW ''INFO'' () (LowBalance e (MIN_BALANCE_SOMI cfg))]))"
proof -
  have m: "mint_attempt cfg cl clk n iteration tr =
     Return (tr @
       [Printed CYAN ''INFO'' (clk (length tr)) (TryingMint (iteration + 1) (MAX_ITERATIONS cfg)),
        Called (GetBalance (FROM_ADDRESS cfg)),
        Printed YELLOW ''INFO'' (clk (length tr + 2)) (LowBalance e (MIN_BALANCE_SOMI cfg))])"
    for tr
    by (simp add: mint_attempt_def balance_check_low [OF assms(2-4)] log_line_def call_def)
  have l: "main_loop cfg cl clk n iteration tr = Some \<lparr>ending = ReturnedEarly, successes = iteration,
                 trace = tr @
                   [Printed CYAN ''INFO'' (clk (length tr))
                      (TryingMint (iteration + 1) (MAX_ITERATIONS cfg)),
                    Called (GetBalance (FROM_ADDRESS cfg)),
                    Printed YELLOW ''INFO'' (clk (length tr + 2))
                      (LowBalance e (MIN_BALANCE_SOMI cfg))]\<rparr>" for tr
    by (rule main_loop_return [OF assms(1) m])
  have w: "map_option untimed (main cfg cl clk) =
              Some (ReturnedEarly, 0,
                [Called IsConnected, Called (FromKey (PRIVATE_KEY cfg)),
                 Printed GREEN ''INFO'' () WebConnected,
                 Printed CYAN ''INFO'' () (TryingMint 1 (MAX_ITERATIONS cfg)),
                 Called (GetBalance (FROM_ADDRESS cfg)),
                 Printed YELLOW ''INFO'' () (LowBalance e (MIN_BALANCE_SOMI cfg))])"
    if "n = 0" "iteration = 0" "setup_web3 cfg cl [] = (Inr a, t)" for a t
    using that l [of "log_line clk t WebConnected GREEN"] setup_web3_ok [OF that(3)]
    by (simp add: main_def untimed_def)
  from l [of tr] w show ?thesis by blast
qed

theorem low_balance_stops_witness:
  "(0::int) < MAX_ITERATIONS (example_config 3) \<and>
   get_balance (healthy_client\<lparr>get_balance := \<lambda>n a. Inr (10 ^ 17)\<rparr>) 0
     (FROM_ADDRESS (example_config 3)) = Inr (10 ^ 17) \<and>
   from_wei (healthy_client\<lparr>get_balance := \<lambda>n a. Inr (10 ^ 17)\<rparr>) (10 ^ 17) = Inr (1 / 10) \<and>
   (1 / 10 :: rat) < MIN_BALANCE_SOMI (example_config 3) \<and>
   map_option untimed
     (main (example_config 3) (healthy_client\<lparr>get_balance := \<lambda>n a. Inr (10 ^ 17)\<rparr>)
        example_clock) =
     Some (ReturnedEarly, 0,
       [Called IsConnected, Called (FromKey ''k1''),
        Printed GREEN ''INFO'' () WebConnected,
        Printed CYAN ''INFO'' () (TryingMint 1 3),
        Called (GetBalance ''0xAbC1''),
        Printed YELLOW ''INFO'' () (LowBalance (1 / 10) (1 / 2))])"
proof -
  let ?cl = "healthy_client\<lparr>get_balance := \<lambda>n a. Inr (10 ^ 17)\<rparr>"
  have a: "(0::int) < MAX_ITERATIONS (example_config 3)"
    by (simp add: example_config_def)
  have b: "get_balance ?cl 0 (FROM_ADDRESS (example_config 3)) = Inr (10 ^ 17)"
    by simp
  have c: "from_wei ?cl (10 ^ 17) = Inr (1 / 10)"
    by (simp add: healthy_client_def)
  have d: "(1 / 10 :: rat) < MIN_BALANCE_SOMI (example_config 3)"
    by (simp add: example_config_def)
  have s: "\<exists>a t. setup_web3 (example_config 3) ?cl [] = (Inr a, t)"
    by (simp add: setup_web3_def example_config_def healthy_client_def lower_def lower_char_def)
  from low_balance_stops [OF a b c d, of example_clock "[]"] s a b c d
  show ?thesis by (simp add: example_config_def)
qed

text \<open>
  Claim C4. In a pass entered with \<open>iteration = k - 1\<close> whose balance block fell through,
  an exception in the nonce fetch, in signing, in the broadcast or in the wait for the
  receipt makes the run return at once: the last observation is the red line that
  reports the exception, placed right after the call that raised, and \<open>k - 1\<close> successes
  are counted. Since the trace ends there, no later pass is started.
\<close>

theorem late_failure_stops:
  assumes "iteration < MAX_ITERATIONS cfg"
    and "balance_check cfg cl clk n
           (log_line clk tr (TryingMint (iteration + 1) (MAX_ITERATIONS cfg)) CYAN) =
         Continue u tr1"
  shows
    "(get_transaction_count cl n (FROM_ADDRESS cfg) = Inl e \<longrightarrow>
        main_loop cfg cl clk n iteration tr =
          Some \<lparr>ending = ReturnedEarly, successes = iteration,
                trace = tr1 @
                  [Called (GetTransactionCount (FROM_ADDRESS cfg)),
                   Printed RED ''INFO'' (clk (length tr1 + 1)) (CouldntBuildTx e)]\<rparr>) \<and>
     (get_transaction_count cl n (FROM_ADDRESS cfg) = Inr nonce \<and>
      gas_estimate cfg cl clk n (call tr1 (GetTransactionCount (FROM_ADDRESS cfg))) =
        Continue u' tr3 \<and>
      sign_transaction cl n (new_transaction cfg nonce) (PRIVATE_KEY cfg) = Inl e \<longrightarrow>
        main_loop cfg cl clk n iteration tr =
          Some \<lparr>ending = ReturnedEarly, successes = iteration,
                trace = tr3 @
                  [Called (SignTransaction (new_transaction cfg nonce) (PRIVATE_KEY cfg)),
                   Printed RED ''INFO'' (clk (length tr3 + 1)) (SigningFailed e)]\<rparr>) \<and>
     (get_transaction_count cl n (FROM_ADDRESS cfg) = Inr nonce \<and>
      gas_estimate cfg cl clk n (call tr1 (GetTransactionCount (FROM_ADDRESS cfg))) =
        Continue u' tr3 \<and>
      sign_transaction cl n (new_transaction cfg nonce) (PRIVATE_KEY cfg) = Inr raw \<and>
      send_raw_transaction cl n raw = Inl e \<longrightarrow>
        main_loop cfg cl clk n iteration tr =
          Some \<lparr>ending = ReturnedEarly, successes = iteration,
                trace = tr3 @
                  [Called (SignTransaction (new_transaction cfg nonce) (PRIVATE_KEY cfg)),
                   Called (SendRawTransaction raw),
                   Printed RED ''INFO'' (clk (length tr3 + 2)) (TxSendFailed e)]\<rparr>) \<and>
     (get_transaction_count cl n (FROM_ADDRESS cfg) = Inr nonce \<and>
      gas_estimate cfg cl clk n (call tr1 (GetTransactionCount (FROM_ADDRESS cfg))) =
        Continue u' tr3 \<and>
      sign_transaction cl n (new_transaction cfg nonce) (PRIVATE_KEY cfg) = Inr raw \<and>
      send_raw_transaction cl n raw = Inr tx_hash \<and>
      wait_for_transaction_receipt cl n tx_hash 300 = Inl e \<longrightarrow>
        main_loop cfg cl clk n iteration tr =
          Some \<lparr>ending = ReturnedEarly, successes = iteration,
                trace = tr3 @
                  [Called (SignTransaction (new_transaction cfg nonce) (PRIVATE_KEY cfg)),
                   Called (SendRawTransaction raw),
                   Printed GREEN ''INFO'' (clk (length tr3 + 2)) (TxSent tx_hash),
                   Called (WaitForTransactionReceipt tx_hash 300),
                   Printed RED ''INFO'' (clk (length tr3 + 4)) (TxSendFailed e)]\<rparr>)"
proof (intro conjI impI)
  assume "get_transaction_count cl n (FROM_ADDRESS cfg) = Inl e"
  then have "mint_attempt cfg cl clk n iteration tr =
      Return (tr1 @ [Called (GetTransactionCount (FROM_ADDRESS cfg)),
                     Printed RED ''INFO'' (clk (length tr1 + 1)) (CouldntBuildTx e)])"
    using assms(2) by (simp add: mint_attempt_def build_tx_def call_def log_line_def)
  then show "main_loop cfg cl clk n iteration tr =
          Some \<lparr>ending = ReturnedEarly, successes = iteration,
                trace = tr1 @
                  [Called (GetTransactionCount (FROM_ADDRESS cfg)),
                   Printed RED ''INFO'' (clk (length tr1 + 1)) (CouldntBuildTx e)]\<rparr>"
    by (rule main_loop_return [OF assms(1)])
next
  assume h: "get_transaction_count cl n (FROM_ADDRESS cfg) = Inr nonce \<and>
      gas_estimate cfg cl clk n (call tr1 (GetTransactionCount (FROM_ADDRESS cfg))) =
        Continue u' tr3 \<and>
      sign_transaction cl n (new_transaction cfg nonce) (PRIVATE_KEY cfg) = Inl e"
  then have "mint_attempt cfg cl clk n iteration tr =
      Return (tr3 @
                  [Called (SignTransaction (new_transaction cfg nonce) (PRIVATE_KEY cfg)),
                   Printed RED ''INFO'' (clk (length tr3 + 1)) (SigningFailed e)])"
    using assms(2)
    by (simp add: mint_attempt_def build_tx_def sign_tx_def call_def log_line_def)
  then show "main_loop cfg cl clk n iteration tr =
          Some \<lparr>ending = ReturnedEarly, successes = iteration,
                trace = tr3 @
                  [Called (SignTransaction (new_transaction cfg nonce) (PRIVATE_KEY cfg)),
                   Printed RED ''INFO'' (clk (length tr3 + 1)) (SigningFailed e)]\<rparr>"
    by (rule main_loop_return [OF assms(1)])
next
  assume h: "get_transaction_count cl n (FROM_ADDRESS cfg) = Inr nonce \<and>
      gas_estimate cfg cl clk n (call tr1 (GetTransactionCount (FROM_ADDRESS cfg))) =
        Continue u' tr3 \<and>
      sign_transaction cl n (new_transaction cfg nonce) (PRIVATE_KEY cfg) = Inr raw \<and>
      send_raw_transaction cl n raw = Inl e"
  then have "mint_attempt cfg cl clk n iteration tr =
      Return (tr3 @
                  [Called (SignTransaction (new_transaction cfg nonce) (PRIVATE_KEY cfg)),
                   Called (SendRawTransaction raw),
                   Printed RED ''INFO'' (clk (length tr3 + 2)) (TxSendFailed e)])"
    using assms(2)
    by (simp add: mint_attempt_def build_tx_def sign_tx_def send_tx_def call_def log_line_def)
  then show "main_loop cfg cl clk n iteration tr =
          Some \<lparr>ending = ReturnedEarly, successes = iteration,
                trace = tr3 @
                  [Called (SignTransaction (new_transaction cfg nonce) (PRIVATE_KEY cfg)),
                   Called (SendRawTransaction raw),
                   Printed RED ''INFO'' (clk (length tr3 + 2)) (TxSendFailed e)]\<rparr>"
    by (rule main_loop_return [OF assms(1)])
next
  assume h: "get_transaction_count cl n (FROM_ADDRESS cfg) = Inr nonce \<and>
      gas_estimate cfg cl clk n (call tr1 (GetTransactionCount (FROM_ADDRESS cfg))) =
        Continue u' tr3 \<and>
      sign_transaction cl n (new_transaction cfg nonce) (PRIVATE_KEY cfg) = Inr raw \<and>
      send_raw_transaction cl n raw = Inr tx_hash \<and>
      wait_for_transaction_receipt cl n tx_hash 300 = Inl e"
  then have "mint_attempt cfg cl clk n iteration tr =
      Return (tr3 @
                  [Called (SignTransaction (new_transaction cfg nonce) (PRIVATE_KEY cfg)),
                   Called (SendRawTransaction raw),
                   Printed GREEN ''INFO'' (clk (length tr3 + 2)) (TxSent tx_hash),
                   Called (WaitForTransactionReceipt tx_hash 300),
                   Printed RED ''INFO'' (clk (length tr3 + 4)) (TxSendFailed e)])"
    using assms(2)
    by (simp add: mint_attempt_def build_tx_def sign_tx_def send_tx_def call_def log_line_def
        eval_nat_numeral)
  then show "main_loop cfg cl clk n iteration tr =
          Some \<lparr>ending = ReturnedEarly, successes = iteration,
                trace = tr3 @
                  [Called (SignTransaction (new_transaction cfg nonce) (PRIVATE_KEY cfg)),
                   Called (SendRawTransaction raw),
                   Printed GREEN ''INFO'' (clk (length tr3 + 2)) (TxSent tx_hash),
                   Called (WaitForTransactionReceipt tx_hash 300),
                   Printed RED ''INFO'' (clk (length tr3 + 4)) (TxSendFailed e)]\<rparr>"
    by (rule main_loop_return [OF assms(1)])
qed


theorem late_failure_stops_witness:
  "map_option untimed
     (main_loop (example_config 3)
        (healthy_client\<lparr>get_transaction_count := \<lambda>n a. Inl (Raised ''nonce'')\<rparr>)
        example_clock 1 1 []) =
     Some (ReturnedEarly, 1,
       [Printed CYAN ''INFO'' () (TryingMint 2 3), Called (GetBalance ''0xAbC1''),
        Printed WHITE ''INFO'' () (BalanceGood 3), Called (GetTransactionCount ''0xAbC1''),
        Printed RED ''INFO'' () (CouldntBuildTx (Raised ''nonce''))]) \<and>
   map_option untimed
     (main_loop (example_config 3)
        (healthy_client\<lparr>sign_transaction := \<lambda>n tx k. Inl (Raised ''sign'')\<rparr>)
        example_clock 1 1 []) =
     Some (ReturnedEarly, 1,
       [Printed CYAN ''INFO'' () (TryingMint 2 3), Called (GetBalance ''0xAbC1''),
        Printed WHITE ''INFO'' () (BalanceGood 3), Called (GetTransactionCount ''0xAbC1''),
        Called (EstimateGas (estimate_request (example_config 3))),
        Called (SignTransaction (new_transaction (example_config 3) 1) ''k1''),
        Printed RED ''INFO'' () (SigningFailed (Raised ''sign''))]) \<and>
   map_option untimed
     (main_loop (example_config 3)
        (healthy_client\<lparr>send_raw_transaction := \<lambda>n raw. Inl (Raised ''send'')\<rparr>)
        example_clock 1 1 []) =
     Some (ReturnedEarly, 1,
       [Printed CYAN ''INFO'' () (TryingMint 2 3), Called (GetBalance ''0xAbC1''),
        Printed WHITE ''INFO'' () (BalanceGood 3), Called (GetTransactionCount ''0xAbC1''),
        Called (EstimateGas (estimate_request (example_config 3))),
        Called (SignTransaction (new_transaction (example_config 3) 1) ''k1''),
        Called (SendRawTransaction ''raw''),
        Printed RED ''INFO'' () (TxSendFailed (Raised ''send''))]) \<and>
   map_option untimed
     (main_loop (example_config 3)
        (healthy_client\<lparr>wait_for_transaction_receipt := \<lambda>n h t. Inl (Raised ''wait'')\<rparr>)
        example_clock 1 1 []) =
     Some (ReturnedEarly, 1,
       [Printed CYAN ''INFO'' () (TryingMint 2 3), Called (GetBalance ''0xAbC1''),
        Printed WHITE ''INFO'' () (BalanceGood 3), Called (GetTransactionCount ''0xAbC1''),
        Called (EstimateGas (estimate_request (example_config 3))),
        Called (SignTransaction (new_transaction (example_config 3) 1) ''k1''),
        Called (SendRawTransaction ''raw''),
        Printed GREEN ''INFO'' () (TxSent ''hash''),
        Called (WaitForTransactionReceipt ''hash'' 300),
        Printed RED ''INFO'' () (TxSendFailed (Raised ''wait''))])"
proof -
  let ?cfg = "example_config 3"
  let ?c1 = "healthy_client\<lparr>get_transaction_count := \<lambda>n a. Inl (Raised ''nonce'')\<rparr>"
  let ?c2 = "healthy_client\<lparr>sign_transaction := \<lambda>n tx k. Inl (Raised ''sign'')\<rparr>"
  let ?c3 = "healthy_client\<lparr>send_raw_transaction := \<lambda>n raw. Inl (Raised ''send'')\<rparr>"
  let ?c4 = "healthy_client\<lparr>wait_for_transaction_receipt := \<lambda>n h t. Inl (Raised ''wait'')\<rparr>"
  let ?t = "''2025-01-01 00:00:00 UTC''"
  let ?tr0 = "log_line example_clock [] (TryingMint (1 + 1) (MAX_ITERATIONS ?cfg)) CYAN"
  let ?tr1 = "[Printed CYAN ''INFO'' ?t (TryingMint 2 3), Called (GetBalance ''0xAbC1''),
               Printed WHITE ''INFO'' ?t (BalanceGood 3)]"
  let ?tr3 = "?tr1 @ [Called (GetTransactionCount ''0xAbC1''),
               Called (EstimateGas (estimate_request ?cfg))]"
  note defs = example_defs balance_check_def gas_estimate_def call_def log_line_def
  have a: "(1::int) < MAX_ITERATIONS ?cfg"
    by (simp add: example_config_def)
  have b1: "balance_check ?cfg ?c1 example_clock 1 ?tr0 = Continue () ?tr1"
    by (simp add: defs)
  have b2: "balance_check ?cfg ?c2 example_clock 1 ?tr0 = Continue () ?tr1"
    by (simp add: defs)
  have b3: "balance_check ?cfg ?c3 example_clock 1 ?tr0 = Continue () ?tr1"
    by (simp add: defs)
  have b4: "balance_check ?cfg ?c4 example_clock 1 ?tr0 = Continue () ?tr1"
    by (simp add: defs)
  have g2: "gas_estimate ?cfg ?c2 example_clock 1
              (call ?tr1 (GetTransactionCount (FROM_ADDRESS ?cfg))) = Continue () ?tr3"
    by (simp add: defs estimate_request_def)
  have g3: "gas_estimate ?cfg ?c3 example_clock 1
              (call ?tr1 (GetTransactionCount (FROM_ADDRESS ?cfg))) = Continue () ?tr3"
    by (simp add: defs estimate_request_def)
  have g4: "gas_estimate ?cfg ?c4 example_clock 1
              (call ?tr1 (GetTransactionCount (FROM_ADDRESS ?cfg))) = Continue () ?tr3"
    by (simp add: defs estimate_request_def)
  have f1: "main_loop ?cfg ?c1 example_clock 1 1 [] =
     Some \<lparr>ending = ReturnedEarly, successes = 1,
           trace = ?tr1 @ [Called (GetTransactionCount ''0xAbC1''),
                    Printed RED ''INFO'' ?t (CouldntBuildTx (Raised ''nonce''))]\<rparr>"
    using late_failure_stops [OF a b1, where e = "Raised ''nonce''"]
    by (simp add: example_defs)
  have f2: "main_loop ?cfg ?c2 example_clock 1 1 [] =
     Some \<lparr>ending = ReturnedEarly, successes = 1,
           trace = ?tr3 @ [Called (SignTransaction (new_transaction ?cfg 1) ''k1''),
                    Printed RED ''INFO'' ?t (SigningFailed (Raised ''sign''))]\<rparr>"
    using late_failure_stops [OF a b2, where e = "Raised ''sign''" and nonce = 1
        and u' = "()" and ?tr3.0 = ?tr3] g2
    by (simp add: example_defs)
  have f3: "main_loop ?cfg ?c3 example_clock 1 1 [] =
     Some \<lparr>ending = ReturnedEarly, successes = 1,
           trace = ?tr3 @ [Called (SignTransaction (new_transaction ?cfg 1) ''k1''),
                    Called (SendRawTransaction ''raw''),
                    Printed RED ''INFO'' ?t (TxSendFailed (Raised ''send''))]\<rparr>"
    using late_failure_stops [OF a b3, where e = "Raised ''send''" and nonce = 1
        and u' = "()" and ?tr3.0 = ?tr3 and raw = "''raw''"] g3
    by (simp add: example_defs)
  have f4: "main_loop ?cfg ?c4 example_clock 1 1 [] =
     Some \<lparr>ending = ReturnedEarly, successes = 1,
           trace = ?tr3 @ [Called (SignTransaction (new_transaction ?cfg 1) ''k1''),
                    Called (SendRawTransaction ''raw''),
                    Printed GREEN ''INFO'' ?t (TxSent ''hash''),
                    Called (WaitForTransactionReceipt ''hash'' 300),
                    Printed RED ''INFO'' ?t (TxSendFailed (Raised ''wait''))]\<rparr>"
    using late_failure_stops [OF a b4, where e = "Raised ''wait''" and nonce = 1
        and u' = "()" and ?tr3.0 = ?tr3 and raw = "''raw''" and tx_hash = "''hash''"] g4
    by (simp add: example_defs)
  from f1 f2 f3 f4 show ?thesis
    by (simp add: untimed_def)
qed

subsection \<open>The clock and the earlier trace do not steer a pass\<close>

lemma balance_check_events:
  "flow_events (balance_check cfg cl clk n tr) =
     apsnd ((@) (events tr)) (flow_events (balance_check cfg cl clk' n []))"
  by (simp add: balance_check_def Let_def split: sum.splits)

lemma build_tx_events:
  "flow_events (build_tx cfg cl clk n tr) =
     apsnd ((@) (events tr)) (flow_events (build_tx cfg cl clk' n []))"
  by (simp add: build_tx_def Let_def split: sum.splits)

lemma gas_estimate_events:
  "flow_events (gas_estimate cfg cl clk n tr) =
     apsnd ((@) (events tr)) (flow_events (gas_estimate cfg cl clk' n []))"
  by (simp add: gas_estimate_def Let_def split: sum.splits)

lemma sign_tx_events:
  "flow_events (sign_tx cfg cl clk n tx tr) =
     apsnd ((@) (events tr)) (flow_events (sign_tx cfg cl clk' n tx []))"
  by (simp add: sign_tx_def Let_def split: sum.splits)

lemma send_tx_events:
  "flow_events (send_tx cfg cl clk n raw iteration tr) =
     apsnd ((@) (events tr)) (flow_events (send_tx cfg cl clk' n raw iteration []))"
  by (simp add: send_tx_def Let_def split: sum.splits)

lemma pause_events:
  "events (pause cfg clk iteration tr) = events tr @ events (pause cfg clk' iteration [])"
  by (simp add: pause_def)

lemma flow_events_eqD:
  "flow_events f = flow_events g \<Longrightarrow>
     (\<exists>t t'. f = Return t \<and> g = Return t' \<and> events t = events t') \<or>
     (\<exists>a t t'. f = Continue a t \<and> g = Continue a t' \<and> events t = events t')"
  by (cases f; cases g) auto

lemma mint_attempt_events_eq:
  assumes "events tr = events tr'"
  shows "flow_events (mint_attempt cfg cl clk n iteration tr) =
         flow_events (mint_attempt cfg cl clk' n iteration tr')"
proof -
  let ?m = "TryingMint (iteration + 1) (MAX_ITERATIONS cfg)"
  have e0: "events (log_line clk tr ?m CYAN) = events (log_line clk' tr' ?m CYAN)"
    using assms by simp
  have "flow_events (balance_check cfg cl clk n (log_line clk tr ?m CYAN)) =
        flow_events (balance_check cfg cl clk' n (log_line clk' tr' ?m CYAN))"
    using e0 balance_check_events [of cfg cl clk n "log_line clk tr ?m CYAN" clk']
      balance_check_events [of cfg cl clk' n "log_line clk' tr' ?m CYAN" clk'] by simp
  from flow_events_eqD [OF this] show ?thesis
  proof (elim disjE exE conjE)
    fix t t'
    assume "balance_check cfg cl clk n (log_line clk tr ?m CYAN) = Return t"
      "balance_check cfg cl clk' n (log_line clk' tr' ?m CYAN) = Return t'"
      "events t = events t'"
    then show ?thesis by (simp add: mint_attempt_def)
  next
    fix u t1 t1'
    assume b: "balance_check cfg cl clk n (log_line clk tr ?m CYAN) = Continue u t1"
      "balance_check cfg cl clk' n (log_line clk' tr' ?m CYAN) = Continue u t1'"
      and e1: "events t1 = events t1'"
    have "flow_events (build_tx cfg cl clk n t1) = flow_events (build_tx cfg cl clk' n t1')"
      using e1 build_tx_events [of cfg cl clk n t1 clk']
        build_tx_events [of cfg cl clk' n t1' clk'] by simp
    from flow_events_eqD [OF this] show ?thesis
    proof (elim disjE exE conjE)
      fix t t'
      assume "build_tx cfg cl clk n t1 = Return t" "build_tx cfg cl clk' n t1' = Return t'"
        "events t = events t'"
      with b show ?thesis by (simp add: mint_attempt_def)
    next
      fix tx t2 t2'
      assume c: "build_tx cfg cl clk n t1 = Continue tx t2"
        "build_tx cfg cl clk' n t1' = Continue tx t2'"
        and e2: "events t2 = events t2'"
      have "flow_events (gas_estimate cfg cl clk n t2) =
            flow_events (gas_estimate cfg cl clk' n t2')"
        using e2 gas_estimate_events [of cfg cl clk n t2 clk']
          gas_estimate_events [of cfg cl clk' n t2' clk'] by simp
      from flow_events_eqD [OF this] show ?thesis
      proof (elim disjE exE conjE)
        fix t t'
        assume "gas_estimate cfg cl clk n t2 = Return t"
          "gas_estimate cfg cl clk' n t2' = Return t'" "events t = events t'"
        with b c show ?thesis by (simp add: mint_attempt_def)
      next
        fix v t3 t3'
        assume d: "gas_estimate cfg cl clk n t2 = Continue v t3"
          "gas_estimate cfg cl clk' n t2' = Continue v t3'"
          and e3: "events t3 = events t3'"
        have "flow_events (sign_tx cfg cl clk n tx t3) =
              flow_events (sign_tx cfg cl clk' n tx t3')"
          using e3 sign_tx_events [of cfg cl clk n tx t3 clk']
            sign_tx_events [of cfg cl clk' n tx t3' clk'] by simp
        from flow_events_eqD [OF this] show ?thesis
        proof (elim disjE exE conjE)
          fix t t'
          assume "sign_tx cfg cl clk n tx t3 = Return t"
            "sign_tx cfg cl clk' n tx t3' = Return t'" "events t = events t'"
          with b c d show ?thesis by (simp add: mint_attempt_def)
        next
          fix raw t4 t4'
          assume f: "sign_tx cfg cl clk n tx t3 = Continue raw t4"
            "sign_tx cfg cl clk' n tx t3' = Continue raw t4'"
            and e4: "events t4 = events t4'"
          have "flow_events (send_tx cfg cl clk n raw iteration t4) =
                flow_events (send_tx cfg cl clk' n raw iteration t4')"
            using e4 send_tx_events [of cfg cl clk n raw iteration t4 clk']
              send_tx_events [of cfg cl clk' n raw iteration t4' clk'] by simp
          from flow_events_eqD [OF this] show ?thesis
          proof (elim disjE exE conjE)
            fix t t'
            assume "send_tx cfg cl clk n raw iteration t4 = Return t"
              "send_tx cfg cl clk' n raw iteration t4' = Return t'" "events t = events t'"
            with b c d f show ?thesis by (simp add: mint_attempt_def)
          next
            fix i t5 t5'
            assume g: "send_tx cfg cl clk n raw iteration t4 = Continue i t5"
              "send_tx cfg cl clk' n raw iteration t4' = Continue i t5'"
              and e5: "events t5 = events t5'"
            have "events (pause cfg clk i t5) = events (pause cfg clk' i t5')"
              using e5 pause_events [of cfg clk i t5 clk'] pause_events [of cfg clk' i t5' clk']
              by simp
            with b c d f g show ?thesis by (simp add: mint_attempt_def)
          qed
        qed
      qed
    qed
  qed
qed

lemma main_loop_clock:
  assumes "main_loop cfg cl clk n iteration tr = Some r" and "events tr = events tr'"
  shows "\<exists>r'. main_loop cfg cl clk' n iteration tr' = Some r' \<and> untimed r' = untimed r"
proof -
  have "\<forall>tr'. events tr = events tr' \<longrightarrow>
          (\<exists>r'. main_loop cfg cl clk' n iteration tr' = Some r' \<and> untimed r' = untimed r)"
  proof (rule main_loop.raw_induct [OF _ assms(1), where P = "\<lambda>cfg cl clk n iteration tr r.
      \<forall>tr'. events tr = events tr' \<longrightarrow>
        (\<exists>r'. main_loop cfg cl clk' n iteration tr' = Some r' \<and> untimed r' = untimed r)"])
    fix loop :: "config \<Rightarrow> client \<Rightarrow> clock \<Rightarrow> nat \<Rightarrow> int \<Rightarrow> trace \<Rightarrow> outcome option"
    fix cfg cl clk n iteration tr r
    assume IH: "\<And>cfg cl clk n iteration tr r. loop cfg cl clk n iteration tr = Some r \<Longrightarrow>
        \<forall>tr'. events tr = events tr' \<longrightarrow>
          (\<exists>r'. main_loop cfg cl clk' n iteration tr' = Some r' \<and> untimed r' = untimed r)"
    assume step: "(if iteration < MAX_ITERATIONS cfg then
        (case mint_attempt cfg cl clk n iteration tr of
           Return t \<Rightarrow> Some \<lparr>ending = ReturnedEarly, successes = iteration, trace = t\<rparr>
         | Continue iteration' t \<Rightarrow> loop cfg cl clk (Suc n) iteration' t)
      else
        Some \<lparr>ending = LoopExited, successes = iteration,
              trace = (if iteration \<ge> MAX_ITERATIONS cfg
                       then log_line clk tr (HitMaxIterations (MAX_ITERATIONS cfg)) MAGENTA
                       else log_line clk tr StoppedEarly MAGENTA)\<rparr>) = Some r"
    show "\<forall>tr'. events tr = events tr' \<longrightarrow>
          (\<exists>r'. main_loop cfg cl clk' n iteration tr' = Some r' \<and> untimed r' = untimed r)"
    proof (intro allI impI)
      fix tr' :: trace
      assume e: "events tr = events tr'"
      show "\<exists>r'. main_loop cfg cl clk' n iteration tr' = Some r' \<and> untimed r' = untimed r"
      proof (cases "iteration < MAX_ITERATIONS cfg")
        case False
        with step e show ?thesis
          by (subst main_loop.simps) (auto simp: untimed_def)
      next
        case True
        from flow_events_eqD [OF mint_attempt_events_eq [OF e, of cfg cl clk n iteration clk']]
        show ?thesis
        proof (elim disjE exE conjE)
          fix t t'
          assume m: "mint_attempt cfg cl clk n iteration tr = Return t"
            "mint_attempt cfg cl clk' n iteration tr' = Return t'" "events t = events t'"
          with True step show ?thesis
            by (subst main_loop.simps) (auto simp: untimed_def)
        next
          fix i t t'
          assume m: "mint_attempt cfg cl clk n iteration tr = Continue i t"
            "mint_attempt cfg cl clk' n iteration tr' = Continue i t'" "events t = events t'"
          with True step have "loop cfg cl clk (Suc n) i t = Some r" by simp
          from IH [OF this] m(3) True m(2) show ?thesis
            by (subst main_loop.simps) simp
        qed
      qed
    qed
  qed
  with assms(2) show ?thesis by blast
qed

lemma main_loop_clock_eq:
  assumes "events tr = events tr'"
  shows "map_option untimed (main_loop cfg cl clk n iteration tr) =
         map_option untimed (main_loop cfg cl clk' n iteration tr')"
proof (cases "main_loop cfg cl clk n iteration tr")
  case (Some r)
  from main_loop_clock [OF Some assms, of clk'] Some show ?thesis by auto
next
  case None
  show ?thesis
  proof (cases "main_loop cfg cl clk' n iteration tr'")
    case (Some r')
    from main_loop_clock [OF Some assms [symmetric], of clk] None show ?thesis by auto
  next
    case n: None
    with None show ?thesis by simp
  qed
qed

text \<open>
  Claim C8. Two runs with the same configuration and the same answers of the client
  differ at most in what the wall clock reads when a line is printed. Whatever the two
  clocks read, either both runs go on for ever or both return, with the same ending, the
  same number of successes and the same sequence of printed lines, client calls and
  sleeps once the timestamps are left out.
\<close>

theorem run_is_deterministic:
  "map_option untimed (main cfg cl clk) = map_option untimed (main cfg cl clk')"
proof (cases "setup_web3 cfg cl []")
  case (Pair res tr)
  show ?thesis
  proof (cases res)
    case (Inl e)
    with Pair show ?thesis by (simp add: main_def untimed_def)
  next
    case (Inr a)
    have "events (log_line clk tr WebConnected GREEN) =
          events (log_line clk' tr WebConnected GREEN)" by simp
    from main_loop_clock_eq [OF this] Pair Inr show ?thesis by (simp add: main_def)
  qed
qed

subsection \<open>The gas estimate\<close>

text \<open>
  Claim C6. In a pass whose balance block fell through and whose nonce fetch succeeded,
  an estimate above \<open>GAS_LIMIT\<close> is followed by the yellow warning and then by the call
  that signs the transaction built before the estimate, whose gas field is \<open>GAS_LIMIT\<close>;
  if signing succeeds, the next observation is the broadcast of what signing returned.
\<close>

theorem gas_warning_proceeds:
  assumes "balance_check cfg cl clk n
             (log_line clk tr (TryingMint (iteration + 1) (MAX_ITERATIONS cfg)) CYAN) =
           Continue u tr1"
    and "get_transaction_count cl n (FROM_ADDRESS cfg) = Inr nonce"
    and "estimate_gas cl n (estimate_request cfg) = Inr g"
    and "GAS_LIMIT cfg < g"
  shows "prefix
           (tr1 @
            [Called (GetTransactionCount (FROM_ADDRESS cfg)),
             Called (EstimateGas (estimate_request cfg)),
             Printed YELLOW ''INFO'' (clk (length tr1 + 2)) (GasWarning g (GAS_LIMIT cfg)),
             Called (SignTransaction (new_transaction cfg nonce) (PRIVATE_KEY cfg))])
           (flow_trace (mint_attempt cfg cl clk n iteration tr)) \<and>
         tx_gas (new_transaction cfg nonce) = GAS_LIMIT cfg \<and>
         (sign_transaction cl n (new_transaction cfg nonce) (PRIVATE_KEY cfg) = Inr raw \<longrightarrow>
          prefix
           (tr1 @
            [Called (GetTransactionCount (FROM_ADDRESS cfg)),
             Called (EstimateGas (estimate_request cfg)),
             Printed YELLOW ''INFO'' (clk (length tr1 + 2)) (GasWarning g (GAS_LIMIT cfg)),
             Called (SignTransaction (new_transaction cfg nonce) (PRIVATE_KEY cfg)),
             Called (SendRawTransaction raw)])
           (flow_trace (mint_attempt cfg cl clk n iteration tr)))"
proof -
  let ?tr3 = "tr1 @
            [Called (GetTransactionCount (FROM_ADDRESS cfg)),
             Called (EstimateGas (estimate_request cfg)),
             Printed YELLOW ''INFO'' (clk (length tr1 + 2)) (GasWarning g (GAS_LIMIT cfg))]"
  let ?tx = "new_transaction cfg nonce"
  have m: "mint_attempt cfg cl clk n iteration tr =
     (case sign_tx cfg cl clk n ?tx ?tr3 of
        Return t \<Rightarrow> Return t
      | Continue raw_transaction tr4 \<Rightarrow>
          (case send_tx cfg cl clk n raw_transaction iteration tr4 of
             Return t \<Rightarrow> Return t
           | Continue iteration' tr5 \<Rightarrow>
               Continue iteration' (pause cfg clk iteration' tr5)))"
    using assms
    by (simp add: mint_attempt_def build_tx_def gas_estimate_def call_def log_line_def)
  have s: "prefix (?tr3 @ [Called (SignTransaction ?tx (PRIVATE_KEY cfg))])
             (flow_trace (mint_attempt cfg cl clk n iteration tr))"
    unfolding m
    by (auto simp: sign_tx_def send_tx_def pause_def call_def log_line_def Let_def prefix_def
        split: sum.splits)
  have b: "prefix (?tr3 @ [Called (SignTransaction ?tx (PRIVATE_KEY cfg)),
                           Called (SendRawTransaction raw)])
             (flow_trace (mint_attempt cfg cl clk n iteration tr))"
    if "sign_transaction cl n ?tx (PRIVATE_KEY cfg) = Inr raw"
    unfolding m using that
    by (auto simp: sign_tx_def send_tx_def pause_def call_def log_line_def Let_def prefix_def
        split: sum.splits)
  from s b show ?thesis by (simp add: new_transaction_def)
qed

theorem gas_warning_proceeds_witness:
  "GAS_LIMIT (example_config 3) < 120000 \<and>
   map_option untimed
     (main_loop (example_config 1) (healthy_client\<lparr>estimate_gas := \<lambda>n r. Inr 120000\<rparr>)
        example_clock 0 0 []) =
   Some (LoopExited, 1,
     [Printed CYAN ''INFO'' () (TryingMint 1 1), Called (GetBalance ''0xAbC1''),
      Printed WHITE ''INFO'' () (BalanceGood 3), Called (GetTransactionCount ''0xAbC1''),
      Called (EstimateGas (estimate_request (example_config 1))),
      Printed YELLOW ''INFO'' () (GasWarning 120000 100000),
      Called (SignTransaction (new_transaction (example_config 1) 0) ''k1''),
      Called (SendRawTransaction ''raw''),
      Printed GREEN ''INFO'' () (TxSent ''hash''),
      Called (WaitForTransactionReceipt ''hash'' 300),
      Printed CYAN ''INFO'' () (MinedInBlock 100),
      Printed GREEN ''INFO'' () MintSuccessful,
      Printed MAGENTA ''INFO'' () (HitMaxIterations 1)]) \<and>
   prefix
     [Printed CYAN ''INFO'' ''2025-01-01 00:00:00 UTC'' (TryingMint 1 1),
      Called (GetBalance ''0xAbC1''),
      Printed WHITE ''INFO'' ''2025-01-01 00:00:00 UTC'' (BalanceGood 3),
      Called (GetTransactionCount ''0xAbC1''),
      Called (EstimateGas (estimate_request (example_config 1))),
      Printed YELLOW ''INFO'' ''2025-01-01 00:00:00 UTC'' (GasWarning 120000 100000),
      Called (SignTransaction (new_transaction (example_config 1) 0) ''k1''),
      Called (SendRawTransaction ''raw'')]
     (flow_trace (mint_attempt (example_config 1)
        (healthy_client\<lparr>estimate_gas := \<lambda>n r. Inr 120000\<rparr>) example_clock 0 0 []))"
proof -
  let ?cfg = "example_config 1"
  let ?cl = "healthy_client\<lparr>estimate_gas := \<lambda>n r. Inr 120000\<rparr>"
  let ?t = "''2025-01-01 00:00:00 UTC''"
  let ?tr1 = "[Printed CYAN ''INFO'' ?t (TryingMint 1 1), Called (GetBalance ''0xAbC1''),
               Printed WHITE ''INFO'' ?t (BalanceGood 3)]"
  have a: "balance_check ?cfg ?cl example_clock 0
             (log_line example_clock [] (TryingMint (0 + 1) (MAX_ITERATIONS ?cfg)) CYAN) =
           Continue () ?tr1"
    by (simp add: example_defs balance_check_def call_def log_line_def)
  have b: "get_transaction_count ?cl 0 (FROM_ADDRESS ?cfg) = Inr 0"
    by (simp add: example_defs)
  have c: "estimate_gas ?cl 0 (estimate_request ?cfg) = Inr 120000"
    by simp
  have d: "GAS_LIMIT ?cfg < 120000" "GAS_LIMIT (example_config 3) < 120000"
    by (simp_all add: example_config_def)
  have e: "sign_transaction ?cl 0 (new_transaction ?cfg 0) (PRIVATE_KEY ?cfg) = Inr ''raw''"
    by (simp add: example_defs)
  have r: "map_option untimed (main_loop ?cfg ?cl example_clock 0 0 []) =
   Some (LoopExited, 1,
     [Printed CYAN ''INFO'' () (TryingMint 1 1), Called (GetBalance ''0xAbC1''),
      Printed WHITE ''INFO'' () (BalanceGood 3), Called (GetTransactionCount ''0xAbC1''),
      Called (EstimateGas (estimate_request ?cfg)),
      Printed YELLOW ''INFO'' () (GasWarning 120000 100000),
      Called (SignTransaction (new_transaction ?cfg 0) ''k1''),
      Called (SendRawTransaction ''raw''),
      Printed GREEN ''INFO'' () (TxSent ''hash''),
      Called (WaitForTransactionReceipt ''hash'' 300),
      Printed CYAN ''INFO'' () (MinedInBlock 100),
      Printed GREEN ''INFO'' () MintSuccessful,
      Printed MAGENTA ''INFO'' () (HitMaxIterations 1)])"
    by (simp add: main_loop.simps run_defs example_defs untimed_def)
  from gas_warning_proceeds [OF a b c d(1), where raw = "''raw''"] e r d(2)
  show ?thesis by (simp add: example_defs)
qed

subsection \<open>Two handlers that log and go on\<close>

lemma balance_check_raises:
  "get_balance cl n (FROM_ADDRESS cfg) = Inl e \<Longrightarrow>
   balance_check cfg cl clk n tr =
     Continue () (tr @ [Called (GetBalance (FROM_ADDRESS cfg)),
                        Printed RED ''INFO'' (clk (length tr + 1)) (BalanceCheckFailed e)])"
  by (simp add: balance_check_def call_def log_line_def)

text \<open>
  Claim C1, at a concrete run. The balance query raises; the handler prints
  "Balance check failed ... Gracefully stopping." and the pass goes on: the nonce is
  fetched, the transaction is signed and broadcast, and the run ends by exhausting a
  maximum of one iteration, with one success.
\<close>

theorem balance_query_failure_goes_on:
  "map_option untimed
     (main (example_config 1)
        (healthy_client\<lparr>get_balance := \<lambda>n a. Inl (Raised ''timeout'')\<rparr>) example_clock) =
   Some (LoopExited, 1,
     [Called IsConnected, Called (FromKey ''k1''),
      Printed GREEN ''INFO'' () WebConnected,
      Printed CYAN ''INFO'' () (TryingMint 1 1), Called (GetBalance ''0xAbC1''),
      Printed RED ''INFO'' () (BalanceCheckFailed (Raised ''timeout'')),
      Called (GetTransactionCount ''0xAbC1''),
      Called (EstimateGas (estimate_request (example_config 1))),
      Called (SignTransaction (new_transaction (example_config 1) 0) ''k1''),
      Called (SendRawTransaction ''raw''),
      Printed GREEN ''INFO'' () (TxSent ''hash''),
      Called (WaitForTransactionReceipt ''hash'' 300),
      Printed CYAN ''INFO'' () (MinedInBlock 100),
      Printed GREEN ''INFO'' () MintSuccessful,
      Printed MAGENTA ''INFO'' () (HitMaxIterations 1)])"
  by (simp add: main_loop.simps run_defs example_defs untimed_def)

text \<open>
  Claim C2, at a concrete run. The first receipt has status 0; the branch prints
  "Tx failed. Gracefully stopping.", the pass falls through to the pause, and the loop
  makes a second pass that broadcasts again. With a second receipt of status 1 the run
  ends by exhausting a maximum of one iteration, with one success.
\<close>

theorem failed_receipt_goes_on:
  "map_option untimed
     (main (example_config 1)
        (healthy_client\<lparr>wait_for_transaction_receipt :=
           \<lambda>n h t. Inr \<lparr>blockNumber = 100, status = (if n = 0 then 0 else 1)\<rparr>\<rparr>)
        example_clock) =
   Some (LoopExited, 1,
     [Called IsConnected, Called (FromKey ''k1''),
      Printed GREEN ''INFO'' () WebConnected,
      Printed CYAN ''INFO'' () (TryingMint 1 1), Called (GetBalance ''0xAbC1''),
      Printed WHITE ''INFO'' () (BalanceGood 3),
      Called (GetTransactionCount ''0xAbC1''),
      Called (EstimateGas (estimate_request (example_config 1))),
      Called (SignTransaction (new_transaction (example_config 1) 0) ''k1''),
      Called (SendRawTransaction ''raw''),
      Printed GREEN ''INFO'' () (TxSent ''hash''),
      Called (WaitForTransactionReceipt ''hash'' 300),
      Printed CYAN ''INFO'' () (MinedInBlock 100),
      Printed RED ''INFO'' () TxFailed,
      Printed WHITE ''INFO'' () (Chilling 1), Slept 1,
      Printed CYAN ''INFO'' () (TryingMint 1 1), Called (GetBalance ''0xAbC1''),
      Printed WHITE ''INFO'' () (BalanceGood 3),
      Called (GetTransactionCount ''0xAbC1''),
      Called (EstimateGas (estimate_request (example_config 1))),
      Called (SignTransaction (new_transaction (example_config 1) 1) ''k1''),
      Called (SendRawTransaction ''raw''),
      Printed GREEN ''INFO'' () (TxSent ''hash''),
      Called (WaitForTransactionReceipt ''hash'' 300),
      Printed CYAN ''INFO'' () (MinedInBlock 100),
      Printed GREEN ''INFO'' () MintSuccessful,
      Printed MAGENTA ''INFO'' () (HitMaxIterations 1)])"
  by (simp add: main_loop.simps run_defs example_defs untimed_def)

subsection \<open>A run in which everything succeeds\<close>

lemma messages_append [simp]: "messages (xs @ ys) = messages xs @ messages ys"
  by (simp add: messages_def)

lemma calls_append [simp]: "calls (xs @ ys) = calls xs @ calls ys"
  by (simp add: calls_def)

lemma messages_simps [simp]:
  "messages [] = []"
  "messages (Printed c l t m # xs) = m # messages xs"
  "messages (Called k # xs) = messages xs"
  "messages (Slept d # xs) = messages xs"
  by (simp_all add: messages_def)

lemma calls_simps [simp]:
  "calls [] = []"
  "calls (Printed c l t m # xs) = calls xs"
  "calls (Called k # xs) = k # calls xs"
  "calls (Slept d # xs) = calls xs"
  by (simp_all add: calls_def)

lemma messages_events [simp]: "messages (events tr) = messages tr"
proof (induction tr)
  case Nil
  show ?case by simp
next
  case (Cons x xs)
  then show ?case by (cases x) simp_all
qed

lemma successful_pass:
  assumes "get_balance cl n (FROM_ADDRESS cfg) = Inr b" and "from_wei cl b = Inr e"
    and "\<not> e < MIN_BALANCE_SOMI cfg"
    and "get_transaction_count cl n (FROM_ADDRESS cfg) = Inr c"
    and "estimate_gas cl n (estimate_request cfg) = Inr g"
    and "sign_transaction cl n (new_transaction cfg c) (PRIVATE_KEY cfg) = Inr raw"
    and "send_raw_transaction cl n raw = Inr h"
    and "wait_for_transaction_receipt cl n h 300 = Inr rc" and "status rc = 1"
  shows "\<exists>t. mint_attempt cfg cl clk n iteration tr = Continue (iteration + 1) t \<and>
           attempts t = Suc (attempts tr) \<and> mints t = Suc (mints tr) \<and>
           broadcasts t = Suc (broadcasts tr)"
  using assms
  by (simp add: mint_attempt_def balance_check_def build_tx_def gas_estimate_def sign_tx_def
      send_tx_def pause_def call_def log_line_def Let_def attempts_def mints_def
      broadcasts_def)

lemma successful_pass_events:
  assumes "get_balance cl n (FROM_ADDRESS cfg) = Inr b" and "from_wei cl b = Inr e"
    and "\<not> e < MIN_BALANCE_SOMI cfg"
    and "get_transaction_count cl n (FROM_ADDRESS cfg) = Inr c"
    and "estimate_gas cl n (estimate_request cfg) = Inr g"
    and "sign_transaction cl n (new_transaction cfg c) (PRIVATE_KEY cfg) = Inr raw"
    and "send_raw_transaction cl n raw = Inr h"
    and "wait_for_transaction_receipt cl n h 300 = Inr rc" and "status rc = 1"
  shows "flow_events (mint_attempt cfg cl clk n iteration tr) =
     (Some (iteration + 1),
      events tr @
      [Printed CYAN ''INFO'' () (TryingMint (iteration + 1) (MAX_ITERATIONS cfg)),
       Called (GetBalance (FROM_ADDRESS cfg)),
       Printed WHITE ''INFO'' () (BalanceGood e),
       Called (GetTransactionCount (FROM_ADDRESS cfg)),
       Called (EstimateGas (estimate_request cfg))] @
      (if GAS_LIMIT cfg < g
       then [Printed YELLOW ''INFO'' () (GasWarning g (GAS_LIMIT cfg))] else []) @
      [Called (SignTransaction (new_transaction cfg c) (PRIVATE_KEY cfg)),
       Called (SendRawTransaction raw),
       Printed GREEN ''INFO'' () (TxSent h),
       Called (WaitForTransactionReceipt h 300),
       Printed CYAN ''INFO'' () (MinedInBlock (blockNumber rc)),
       Printed GREEN ''INFO'' () MintSuccessful] @
      (if iteration + 1 < MAX_ITERATIONS cfg
       then [Printed WHITE ''INFO'' () (Chilling (DELAY_SECONDS cfg)),
             Slept (DELAY_SECONDS cfg)] else []))"
  using assms
  by (simp add: mint_attempt_def balance_check_def build_tx_def gas_estimate_def sign_tx_def
      send_tx_def pause_def Let_def)

lemma successful_loop:
  assumes bal: "\<forall>n<nat (MAX_ITERATIONS cfg).
        get_balance cl n (FROM_ADDRESS cfg) = Inr (b n) \<and> from_wei cl (b n) = Inr (e n) \<and>
        \<not> e n < MIN_BALANCE_SOMI cfg"
    and nonce: "\<forall>n<nat (MAX_ITERATIONS cfg).
        get_transaction_count cl n (FROM_ADDRESS cfg) = Inr (c n)"
    and gas: "\<forall>n<nat (MAX_ITERATIONS cfg). estimate_gas cl n (estimate_request cfg) = Inr (g n)"
    and sign: "\<forall>n<nat (MAX_ITERATIONS cfg).
        sign_transaction cl n (new_transaction cfg (c n)) (PRIVATE_KEY cfg) = Inr (raw n)"
    and send: "\<forall>n<nat (MAX_ITERATIONS cfg). send_raw_transaction cl n (raw n) = Inr (h n)"
    and wait: "\<forall>n<nat (MAX_ITERATIONS cfg).
        wait_for_transaction_receipt cl n (h n) 300 = Inr (rc n) \<and> status (rc n) = 1"
  shows "int n \<le> MAX_ITERATIONS cfg \<Longrightarrow> k = nat (MAX_ITERATIONS cfg) - n \<Longrightarrow>
     \<exists>r. main_loop cfg cl clk n (int n) tr = Some r \<and> ending r = LoopExited \<and>
       successes r = MAX_ITERATIONS cfg \<and>
       events (trace r) =
         events tr @
         concat (map (\<lambda>n.
           [Printed CYAN ''INFO'' () (TryingMint (int n + 1) (MAX_ITERATIONS cfg)),
            Called (GetBalance (FROM_ADDRESS cfg)),
            Printed WHITE ''INFO'' () (BalanceGood (e n)),
            Called (GetTransactionCount (FROM_ADDRESS cfg)),
            Called (EstimateGas (estimate_request cfg))] @
           (if GAS_LIMIT cfg < g n
            then [Printed YELLOW ''INFO'' () (GasWarning (g n) (GAS_LIMIT cfg))] else []) @
           [Called (SignTransaction (new_transaction cfg (c n)) (PRIVATE_KEY cfg)),
            Called (SendRawTransaction (raw n)),
            Printed GREEN ''INFO'' () (TxSent (h n)),
            Called (WaitForTransactionReceipt (h n) 300),
            Printed CYAN ''INFO'' () (MinedInBlock (blockNumber (rc n))),
            Printed GREEN ''INFO'' () MintSuccessful] @
           (if int n + 1 < MAX_ITERATIONS cfg
            then [Printed WHITE ''INFO'' () (Chilling (DELAY_SECONDS cfg)),
                  Slept (DELAY_SECONDS cfg)] else []))
           [n..<nat (MAX_ITERATIONS cfg)]) @
         [Printed MAGENTA ''INFO'' () (HitMaxIterations (MAX_ITERATIONS cfg))] \<and>
       attempts (trace r) = attempts tr + k \<and> mints (trace r) = mints tr + k \<and>
       broadcasts (trace r) = broadcasts tr + k"
proof (induction k arbitrary: n tr)
  case 0
  then have "\<not> int n < MAX_ITERATIONS cfg" "[n..<nat (MAX_ITERATIONS cfg)] = []"
    "int n = MAX_ITERATIONS cfg" by simp_all
  then show ?case
    by (simp add: main_loop_exit attempts_def mints_def broadcasts_def log_line_def)
next
  case (Suc k)
  then have lt: "int n < MAX_ITERATIONS cfg" and lt': "n < nat (MAX_ITERATIONS cfg)"
    by simp_all
  from bal lt' have b: "get_balance cl n (FROM_ADDRESS cfg) = Inr (b n)"
    "from_wei cl (b n) = Inr (e n)" "\<not> e n < MIN_BALANCE_SOMI cfg" by simp_all
  from nonce lt' have c: "get_transaction_count cl n (FROM_ADDRESS cfg) = Inr (c n)" by simp
  from gas lt' have g: "estimate_gas cl n (estimate_request cfg) = Inr (g n)" by simp
  from sign lt' have
    s: "sign_transaction cl n (new_transaction cfg (c n)) (PRIVATE_KEY cfg) = Inr (raw n)"
    by simp
  from send lt' have h: "send_raw_transaction cl n (raw n) = Inr (h n)" by simp
  from wait lt' have w: "wait_for_transaction_receipt cl n (h n) 300 = Inr (rc n)"
    "status (rc n) = 1" by simp_all
  from successful_pass [OF b c g s h w, of clk "int n" tr] obtain t where
    t: "mint_attempt cfg cl clk n (int n) tr = Continue (int n + 1) t"
      "attempts t = Suc (attempts tr)" "mints t = Suc (mints tr)"
      "broadcasts t = Suc (broadcasts tr)" by blast
  from successful_pass_events [OF b c g s h w, of clk "int n" tr] t(1)
  have ev: "events t =
      events tr @
      [Printed CYAN ''INFO'' () (TryingMint (int n + 1) (MAX_ITERATIONS cfg)),
       Called (GetBalance (FROM_ADDRESS cfg)),
       Printed WHITE ''INFO'' () (BalanceGood (e n)),
       Called (GetTransactionCount (FROM_ADDRESS cfg)),
       Called (EstimateGas (estimate_request cfg))] @
      (if GAS_LIMIT cfg < g n
       then [Printed YELLOW ''INFO'' () (GasWarning (g n) (GAS_LIMIT cfg))] else []) @
      [Called (SignTransaction (new_transaction cfg (c n)) (PRIVATE_KEY cfg)),
       Called (SendRawTransaction (raw n)),
       Printed GREEN ''INFO'' () (TxSent (h n)),
       Called (WaitForTransactionReceipt (h n) 300),
       Printed CYAN ''INFO'' () (MinedInBlock (blockNumber (rc n))),
       Printed GREEN ''INFO'' () MintSuccessful] @
      (if int n + 1 < MAX_ITERATIONS cfg
       then [Printed WHITE ''INFO'' () (Chilling (DELAY_SECONDS cfg)),
             Slept (DELAY_SECONDS cfg)] else [])"
    by simp
  have u: "[n..<nat (MAX_ITERATIONS cfg)] = n # [Suc n..<nat (MAX_ITERATIONS cfg)]"
    using lt' by (rule upt_conv_Cons)
  from Suc.prems have p: "int (Suc n) \<le> MAX_ITERATIONS cfg"
    "k = nat (MAX_ITERATIONS cfg) - Suc n" by simp_all
  have i: "int (Suc n) = int n + 1" by simp
  from Suc.IH [OF p, of t] obtain r where
    r: "main_loop cfg cl clk (Suc n) (int (Suc n)) t = Some r" "ending r = LoopExited"
      "successes r = MAX_ITERATIONS cfg"
      "events (trace r) =
         events t @
         concat (map (\<lambda>n.
           [Printed CYAN ''INFO'' () (TryingMint (int n + 1) (MAX_ITERATIONS cfg)),
            Called (GetBalance (FROM_ADDRESS cfg)),
            Printed WHITE ''INFO'' () (BalanceGood (e n)),
            Called (GetTransactionCount (FROM_ADDRESS cfg)),
            Called (EstimateGas (estimate_request cfg))] @
           (if GAS_LIMIT cfg < g n
            then [Printed YELLOW ''INFO'' () (GasWarning (g n) (GAS_LIMIT cfg))] else []) @
           [Called (SignTransaction (new_transaction cfg (c n)) (PRIVATE_KEY cfg)),
            Called (SendRawTransaction (raw n)),
            Printed GREEN ''INFO'' () (TxSent (h n)),
            Called (WaitForTransactionReceipt (h n) 300),
            Printed CYAN ''INFO'' () (MinedInBlock (blockNumber (rc n))),
            Printed GREEN ''INFO'' () MintSuccessful] @
           (if int n + 1 < MAX_ITERATIONS cfg
            then [Printed WHITE ''INFO'' () (Chilling (DELAY_SECONDS cfg)),
                  Slept (DELAY_SECONDS cfg)] else []))
           [Suc n..<nat (MAX_ITERATIONS cfg)]) @
         [Printed MAGENTA ''INFO'' () (HitMaxIterations (MAX_ITERATIONS cfg))]"
      "attempts (trace r) = attempts t + k" "mints (trace r) = mints t + k"
      "broadcasts (trace r) = broadcasts t + k"
    by blast
  have m: "main_loop cfg cl clk n (int n) tr = Some r"
    using main_loop_continue [OF lt t(1)] r(1) unfolding i by (simp only:)
  have "events (trace r) =
         events tr @
         concat (map (\<lambda>n.
           [Printed CYAN ''INFO'' () (TryingMint (int n + 1) (MAX_ITERATIONS cfg)),
            Called (GetBalance (FROM_ADDRESS cfg)),
            Printed WHITE ''INFO'' () (BalanceGood (e n)),
            Called (GetTransactionCount (FROM_ADDRESS cfg)),
            Called (EstimateGas (estimate_request cfg))] @
           (if GAS_LIMIT cfg < g n
            then [Printed YELLOW ''INFO'' () (GasWarning (g n) (GAS_LIMIT cfg))] else []) @
           [Called (SignTransaction (new_transaction cfg (c n)) (PRIVATE_KEY cfg)),
            Called (SendRawTransaction (raw n)),
            Printed GREEN ''INFO'' () (TxSent (h n)),
            Called (WaitForTransactionReceipt (h n) 300),
            Printed CYAN ''INFO'' () (MinedInBlock (blockNumber (rc n))),
            Printed GREEN ''INFO'' () MintSuccessful] @
           (if int n + 1 < MAX_ITERATIONS cfg
            then [Printed WHITE ''INFO'' () (Chilling (DELAY_SECONDS cfg)),
                  Slept (DELAY_SECONDS cfg)] else []))
           [n..<nat (MAX_ITERATIONS cfg)]) @
         [Printed MAGENTA ''INFO'' () (HitMaxIterations (MAX_ITERATIONS cfg))]"
    unfolding r(4) ev u by simp
  with m r(2,3,5-7) t(2-4) show ?case by simp
qed


lemma setup_web3_succeeds:
  assumes "\<not> str_less (web3_version cl) ''6.0.0''" and "is_connected cl = Inr True"
    and "from_key cl (PRIVATE_KEY cfg) = Inr a" and "lower a = lower (FROM_ADDRESS cfg)"
  shows "setup_web3 cfg cl [] = (Inr a, [Called IsConnected, Called (FromKey (PRIVATE_KEY cfg))])"
  using assms by (simp add: setup_web3_def call_def)

text \<open>
  Claim C3. Let the maximum be \<open>N \<ge> 1\<close>, the setup succeed, and every call of the client
  in the first \<open>N\<close> passes return: a balance \<open>e n\<close> that is not below the minimum, a
  nonce \<open>c n\<close>, an estimate \<open>g n\<close>, a signed transaction \<open>raw n\<close>, a hash \<open>h n\<close> and a
  receipt \<open>rc n\<close> of status 1. Then the run returns at the end of \<open>main\<close> with \<open>N\<close>
  successes, and its trace, timestamps apart, is exactly: the two calls and the line of
  the setup; for each of the passes \<open>1, ..., N\<close> the announcement, the balance query and
  its line, the nonce fetch, the estimate (with the warning when it exceeds the limit),
  the signing of the transaction built with that nonce, the broadcast of what signing
  returned and its line, the wait for the receipt of that hash, the line of the block,
  "Mint successful!", and, except after the last pass, the pause; and at the end
  "Hit max iterations (N). Done!" in magenta. In particular there are \<open>N\<close> announcements,
  \<open>N\<close> broadcasts and \<open>N\<close> lines "Mint successful!".
\<close>

theorem all_success_exhausts:
  assumes "1 \<le> MAX_ITERATIONS cfg"
    and "\<not> str_less (web3_version cl) ''6.0.0''" and "is_connected cl = Inr True"
    and "from_key cl (PRIVATE_KEY cfg) = Inr a" and "lower a = lower (FROM_ADDRESS cfg)"
    and "\<forall>n<nat (MAX_ITERATIONS cfg).
        get_balance cl n (FROM_ADDRESS cfg) = Inr (b n) \<and> from_wei cl (b n) = Inr (e n) \<and>
        \<not> e n < MIN_BALANCE_SOMI cfg"
    and "\<forall>n<nat (MAX_ITERATIONS cfg).
        get_transaction_count cl n (FROM_ADDRESS cfg) = Inr (c n)"
    and "\<forall>n<nat (MAX_ITERATIONS cfg). estimate_gas cl n (estimate_request cfg) = Inr (g n)"
    and "\<forall>n<nat (MAX_ITERATIONS cfg).
        sign_transaction cl n (new_transaction cfg (c n)) (PRIVATE_KEY cfg) = Inr (raw n)"
    and "\<forall>n<nat (MAX_ITERATIONS cfg). send_raw_transaction cl n (raw n) = Inr (h n)"
    and "\<forall>n<nat (MAX_ITERATIONS cfg).
        wait_for_transaction_receipt cl n (h n) 300 = Inr (rc n) \<and> status (rc n) = 1"
  shows "\<exists>r. main cfg cl clk = Some r \<and> ending r = LoopExited \<and>
           successes r = MAX_ITERATIONS cfg \<and>
           events (trace r) =
             [Called IsConnected, Called (FromKey (PRIVATE_KEY cfg)),
              Printed GREEN ''INFO'' () WebConnected] @
             concat (map (\<lambda>n.
               [Printed CYAN ''INFO'' () (TryingMint (int n + 1) (MAX_ITERATIONS cfg)),
                Called (GetBalance (FROM_ADDRESS cfg)),
                Printed WHITE ''INFO'' () (BalanceGood (e n)),
                Called (GetTransactionCount (FROM_ADDRESS cfg)),
                Called (EstimateGas (estimate_request cfg))] @
               (if GAS_LIMIT cfg < g n
                then [Printed YELLOW ''INFO'' () (GasWarning (g n) (GAS_LIMIT cfg))] else []) @
               [Called (SignTransaction (new_transaction cfg (c n)) (PRIVATE_KEY cfg)),
                Called (SendRawTransaction (raw n)),
                Printed GREEN ''INFO'' () (TxSent (h n)),
                Called (WaitForTransactionReceipt (h n) 300),
                Printed CYAN ''INFO'' () (MinedInBlock (blockNumber (rc n))),
                Printed GREEN ''INFO'' () MintSuccessful] @
               (if int n + 1 < MAX_ITERATIONS cfg
                then [Printed WHITE ''INFO'' () (Chilling (DELAY_SECONDS cfg)),
                      Slept (DELAY_SECONDS cfg)] else []))
               [0..<nat (MAX_ITERATIONS cfg)]) @
             [Printed MAGENTA ''INFO'' () (HitMaxIterations (MAX_ITERATIONS cfg))] \<and>
           attempts (trace r) = nat (MAX_ITERATIONS cfg) \<and>
           mints (trace r) = nat (MAX_ITERATIONS cfg) \<and>
           broadcasts (trace r) = nat (MAX_ITERATIONS cfg) \<and>
           last (events (trace r)) =
             Printed MAGENTA ''INFO'' () (HitMaxIterations (MAX_ITERATIONS cfg))"
proof -
  let ?tr = "log_line clk [Called IsConnected, Called (FromKey (PRIVATE_KEY cfg))]
               WebConnected GREEN"
  have m: "main cfg cl clk = main_loop cfg cl clk 0 (int 0) ?tr"
    by (simp add: main_def setup_web3_succeeds [OF assms(2-5)])
  have z: "attempts ?tr = 0" "mints ?tr = 0" "broadcasts ?tr = 0"
    "events ?tr = [Called IsConnected, Called (FromKey (PRIVATE_KEY cfg)),
                   Printed GREEN ''INFO'' () WebConnected]"
    by (simp_all add: attempts_def mints_def broadcasts_def log_line_def)
  from assms(1) have p: "int 0 \<le> MAX_ITERATIONS cfg"
    "nat (MAX_ITERATIONS cfg) = nat (MAX_ITERATIONS cfg) - 0" by simp_all
  from successful_loop [OF assms(6-11) p, of clk ?tr] obtain r where
    r: "main_loop cfg cl clk 0 (int 0) ?tr = Some r" "ending r = LoopExited"
      "successes r = MAX_ITERATIONS cfg"
      "events (trace r) =
         events ?tr @
             concat (map (\<lambda>n.
               [Printed CYAN ''INFO'' () (TryingMint (int n + 1) (MAX_ITERATIONS cfg)),
                Called (GetBalance (FROM_ADDRESS cfg)),
                Printed WHITE ''INFO'' () (BalanceGood (e n)),
                Called (GetTransactionCount (FROM_ADDRESS cfg)),
                Called (EstimateGas (estimate_request cfg))] @
               (if GAS_LIMIT cfg < g n
                then [Printed YELLOW ''INFO'' () (GasWarning (g n) (GAS_LIMIT cfg))] else []) @
               [Called (SignTransaction (new_transaction cfg (c n)) (PRIVATE_KEY cfg)),
                Called (SendRawTransaction (raw n)),
                Printed GREEN ''INFO'' () (TxSent (h n)),
                Called (WaitForTransactionReceipt (h n) 300),
                Printed CYAN ''INFO'' () (MinedInBlock (blockNumber (rc n))),
                Printed GREEN ''INFO'' () MintSuccessful] @
               (if int n + 1 < MAX_ITERATIONS cfg
                then [Printed WHITE ''INFO'' () (Chilling (DELAY_SECONDS cfg)),
                      Slept (DELAY_SECONDS cfg)] else []))
               [0..<nat (MAX_ITERATIONS cfg)]) @
             [Printed MAGENTA ''INFO'' () (HitMaxIterations (MAX_ITERATIONS cfg))]"
      "attempts (trace r) = attempts ?tr + nat (MAX_ITERATIONS cfg)"
      "mints (trace r) = mints ?tr + nat (MAX_ITERATIONS cfg)"
      "broadcasts (trace r) = broadcasts ?tr + nat (MAX_ITERATIONS cfg)"
    by blast
  have l: "last (events (trace r)) =
             Printed MAGENTA ''INFO'' () (HitMaxIterations (MAX_ITERATIONS cfg))"
    unfolding r(4) by simp
  from m r(1-3) r(4) [unfolded z(4)] r(5-7) [unfolded z(1-3)] l show ?thesis
    by (intro exI [of _ r]) simp
qed

theorem all_success_exhausts_witness:
  "map_option untimed (main (example_config 3) healthy_client example_clock) =
     Some (LoopExited, 3,
       [Called IsConnected, Called (FromKey ''k1''),
        Printed GREEN ''INFO'' () WebConnected,
        Printed CYAN ''INFO'' () (TryingMint 1 3), Called (GetBalance ''0xAbC1''),
        Printed WHITE ''INFO'' () (BalanceGood 3),
        Called (GetTransactionCount ''0xAbC1''),
        Called (EstimateGas (estimate_request (example_config 3))),
        Called (SignTransaction (new_transaction (example_config 3) 0) ''k1''),
        Called (SendRawTransaction ''raw''),
        Printed GREEN ''INFO'' () (TxSent ''hash''),
        Called (WaitForTransactionReceipt ''hash'' 300),
        Printed CYAN ''INFO'' () (MinedInBlock 100),
        Printed GREEN ''INFO'' () MintSuccessful,
        Printed WHITE ''INFO'' () (Chilling 1), Slept 1,
        Printed CYAN ''INFO'' () (TryingMint 2 3), Called (GetBalance ''0xAbC1''),
        Printed WHITE ''INFO'' () (BalanceGood 3),
        Called (GetTransactionCount ''0xAbC1''),
        Called (EstimateGas (estimate_request (example_config 3))),
        Called (SignTransaction (new_transaction (example_config 3) 1) ''k1''),
        Called (SendRawTransaction ''raw''),
        Printed GREEN ''INFO'' () (TxSent ''hash''),
        Called (WaitForTransactionReceipt ''hash'' 300),
        Printed CYAN ''INFO'' () (MinedInBlock 101),
        Printed GREEN ''INFO'' () MintSuccessful,
        Printed WHITE ''INFO'' () (Chilling 1), Slept 1,
        Printed CYAN ''INFO'' () (TryingMint 3 3), Called (GetBalance ''0xAbC1''),
        Printed WHITE ''INFO'' () (BalanceGood 3),
        Called (GetTransactionCount ''0xAbC1''),
        Called (EstimateGas (estimate_request (example_config 3))),
        Called (SignTransaction (new_transaction (example_config 3) 2) ''k1''),
        Called (SendRawTransaction ''raw''),
        Printed GREEN ''INFO'' () (TxSent ''hash''),
        Called (WaitForTransactionReceipt ''hash'' 300),
        Printed CYAN ''INFO'' () (MinedInBlock 102),
        Printed GREEN ''INFO'' () MintSuccessful,
        Printed MAGENTA ''INFO'' () (HitMaxIterations 3)]) \<and>
   (\<exists>r. main (example_config 3) healthy_client example_clock = Some r \<and>
      attempts (trace r) = 3 \<and> mints (trace r) = 3 \<and> broadcasts (trace r) = 3)"
proof -
  let ?cfg = "example_config 3"
  have 1: "1 \<le> MAX_ITERATIONS ?cfg" by (simp add: example_config_def)
  have 2: "\<not> str_less (web3_version healthy_client) ''6.0.0''"
    by (simp add: healthy_client_def)
  have 3: "is_connected healthy_client = Inr True" by (simp add: healthy_client_def)
  have 4: "from_key healthy_client (PRIVATE_KEY ?cfg) = Inr ''0xabc1''"
    by (simp add: healthy_client_def)
  have 5: "lower ''0xabc1'' = lower (FROM_ADDRESS ?cfg)"
    by (simp add: example_config_def lower_def lower_char_def)
  have 6: "\<forall>n<nat (MAX_ITERATIONS ?cfg).
             get_balance healthy_client n (FROM_ADDRESS ?cfg) = Inr ((\<lambda>n. 3 * 10 ^ 18) n) \<and>
             from_wei healthy_client ((\<lambda>n. 3 * 10 ^ 18) n) = Inr ((\<lambda>n. 3) n) \<and>
             \<not> (\<lambda>n. 3) n < MIN_BALANCE_SOMI ?cfg"
    by (simp add: example_defs)
  have 7: "\<forall>n<nat (MAX_ITERATIONS ?cfg).
             get_transaction_count healthy_client n (FROM_ADDRESS ?cfg) = Inr (int n)"
    by (simp add: healthy_client_def)
  have 8: "\<forall>n<nat (MAX_ITERATIONS ?cfg).
             estimate_gas healthy_client n (estimate_request ?cfg) = Inr ((\<lambda>n. 90000) n)"
    by (simp add: healthy_client_def)
  have 9: "\<forall>n<nat (MAX_ITERATIONS ?cfg).
             sign_transaction healthy_client n (new_transaction ?cfg (int n))
               (PRIVATE_KEY ?cfg) = Inr ((\<lambda>n. ''raw'') n)"
    by (simp add: healthy_client_def)
  have 10: "\<forall>n<nat (MAX_ITERATIONS ?cfg).
             send_raw_transaction healthy_client n ((\<lambda>n. ''raw'') n) = Inr ((\<lambda>n. ''hash'') n)"
    by (simp add: healthy_client_def)
  have 11: "\<forall>n<nat (MAX_ITERATIONS ?cfg).
             wait_for_transaction_receipt healthy_client n ((\<lambda>n. ''hash'') n) 300 =
               Inr ((\<lambda>n. \<lparr>blockNumber = 100 + int n, status = 1\<rparr>) n) \<and>
             status ((\<lambda>n. \<lparr>blockNumber = 100 + int n, status = 1\<rparr>) n) = 1"
    by (simp add: healthy_client_def)
  have u: "[0..<nat (MAX_ITERATIONS ?cfg)] = [0, 1, 2]"
    by (simp add: example_config_def upt_rec)
  from all_success_exhausts [OF 1 2 3 4 5 6 7 8 9 10 11, of example_clock]
  obtain r where r: "main ?cfg healthy_client example_clock = Some r"
    "ending r = LoopExited" "successes r = MAX_ITERATIONS ?cfg"
    "events (trace r) =
       [Called IsConnected, Called (FromKey (PRIVATE_KEY ?cfg)),
        Printed GREEN ''INFO'' () WebConnected] @
       concat (map (\<lambda>n.
         [Printed CYAN ''INFO'' () (TryingMint (int n + 1) (MAX_ITERATIONS ?cfg)),
          Called (GetBalance (FROM_ADDRESS ?cfg)),
          Printed WHITE ''INFO'' () (BalanceGood 3),
          Called (GetTransactionCount (FROM_ADDRESS ?cfg)),
          Called (EstimateGas (estimate_request ?cfg))] @
         (if GAS_LIMIT ?cfg < 90000
          then [Printed YELLOW ''INFO'' () (GasWarning 90000 (GAS_LIMIT ?cfg))] else []) @
         [Called (SignTransaction (new_transaction ?cfg (int n)) (PRIVATE_KEY ?cfg)),
          Called (SendRawTransaction ''raw''),
          Printed GREEN ''INFO'' () (TxSent ''hash''),
          Called (WaitForTransactionReceipt ''hash'' 300),
          Printed CYAN ''INFO'' ()
            (MinedInBlock (blockNumber \<lparr>blockNumber = 100 + int n, status = 1\<rparr>)),
          Printed GREEN ''INFO'' () MintSuccessful] @
         (if int n + 1 < MAX_ITERATIONS ?cfg
          then [Printed WHITE ''INFO'' () (Chilling (DELAY_SECONDS ?cfg)),
                Slept (DELAY_SECONDS ?cfg)] else []))
         [0..<nat (MAX_ITERATIONS ?cfg)]) @
       [Printed MAGENTA ''INFO'' () (HitMaxIterations (MAX_ITERATIONS ?cfg))]"
    "attempts (trace r) = nat (MAX_ITERATIONS ?cfg)"
    "mints (trace r) = nat (MAX_ITERATIONS ?cfg)"
    "broadcasts (trace r) = nat (MAX_ITERATIONS ?cfg)"
    by blast
  from r(4) have e: "events (trace r) =
       [Called IsConnected, Called (FromKey ''k1''),
        Printed GREEN ''INFO'' () WebConnected,
        Printed CYAN ''INFO'' () (TryingMint 1 3), Called (GetBalance ''0xAbC1''),
        Printed WHITE ''INFO'' () (BalanceGood 3),
        Called (GetTransactionCount ''0xAbC1''),
        Called (EstimateGas (estimate_request (example_config 3))),
        Called (SignTransaction (new_transaction (example_config 3) 0) ''k1''),
        Called (SendRawTransaction ''raw''),
        Printed GREEN ''INFO'' () (TxSent ''hash''),
        Called (WaitForTransactionReceipt ''hash'' 300),
        Printed CYAN ''INFO'' () (MinedInBlock 100),
        Printed GREEN ''INFO'' () MintSuccessful,
        Printed WHITE ''INFO'' () (Chilling 1), Slept 1,
        Printed CYAN ''INFO'' () (TryingMint 2 3), Called (GetBalance ''0xAbC1''),
        Printed WHITE ''INFO'' () (BalanceGood 3),
        Called (GetTransactionCount ''0xAbC1''),
        Called (EstimateGas (estimate_request (example_config 3))),
        Called (SignTransaction (new_transaction (example_config 3) 1) ''k1''),
        Called (SendRawTransaction ''raw''),
        Printed GREEN ''INFO'' () (TxSent ''hash''),
        Called (WaitForTransactionReceipt ''hash'' 300),
        Printed CYAN ''INFO'' () (MinedInBlock 101),
        Printed GREEN ''INFO'' () MintSuccessful,
        Printed WHITE ''INFO'' () (Chilling 1), Slept 1,
        Printed CYAN ''INFO'' () (TryingMint 3 3), Called (GetBalance ''0xAbC1''),
        Printed WHITE ''INFO'' () (BalanceGood 3),
        Called (GetTransactionCount ''0xAbC1''),
        Called (EstimateGas (estimate_request (example_config 3))),
        Called (SignTransaction (new_transaction (example_config 3) 2) ''k1''),
        Called (SendRawTransaction ''raw''),
        Printed GREEN ''INFO'' () (TxSent ''hash''),
        Called (WaitForTransactionReceipt ''hash'' 300),
        Printed CYAN ''INFO'' () (MinedInBlock 102),
        Printed GREEN ''INFO'' () MintSuccessful,
        Printed MAGENTA ''INFO'' () (HitMaxIterations 3)]"
    unfolding u by (simp add: example_config_def)
  from r(1-3,5-7) e show ?thesis
    by (simp add: untimed_def example_config_def)
qed

subsection \<open>The summary after the loop\<close>

lemma mint_attempt_keeps_summaries:
  "filter is_summary (messages (flow_trace (mint_attempt cfg cl clk n iteration tr))) =
   filter is_summary (messages tr)"
  by (simp add: mint_attempt_def balance_check_def build_tx_def gas_estimate_def sign_tx_def
      send_tx_def pause_def call_def log_line_def Let_def split: sum.splits)

lemma mint_attempt_counter:
  "mint_attempt cfg cl clk n iteration tr = Continue i t \<Longrightarrow> i = iteration \<or> i = iteration + 1"
  by (auto simp: mint_attempt_def balance_check_def build_tx_def gas_estimate_def sign_tx_def
      send_tx_def Let_def split: sum.splits if_splits flow.splits)

lemma main_loop_summary:
  assumes "main_loop cfg cl clk n iteration tr = Some r"
  shows "0 \<le> iteration \<and> (0 \<le> MAX_ITERATIONS cfg \<longrightarrow> iteration \<le> MAX_ITERATIONS cfg) \<and>
         filter is_summary (messages tr) = [] \<longrightarrow>
         (ending r = LoopExited \<and> MAX_ITERATIONS cfg \<le> successes r \<and>
          (0 \<le> MAX_ITERATIONS cfg \<longrightarrow> successes r = MAX_ITERATIONS cfg) \<and>
          filter is_summary (messages (trace r)) = [HitMaxIterations (MAX_ITERATIONS cfg)]) \<or>
         (ending r = ReturnedEarly \<and> filter is_summary (messages (trace r)) = [])"
proof (rule main_loop.raw_induct [OF _ assms, where P = "\<lambda>cfg cl clk n iteration tr r.
    0 \<le> iteration \<and> (0 \<le> MAX_ITERATIONS cfg \<longrightarrow> iteration \<le> MAX_ITERATIONS cfg) \<and>
         filter is_summary (messages tr) = [] \<longrightarrow>
         (ending r = LoopExited \<and> MAX_ITERATIONS cfg \<le> successes r \<and>
          (0 \<le> MAX_ITERATIONS cfg \<longrightarrow> successes r = MAX_ITERATIONS cfg) \<and>
          filter is_summary (messages (trace r)) = [HitMaxIterations (MAX_ITERATIONS cfg)]) \<or>
         (ending r = ReturnedEarly \<and> filter is_summary (messages (trace r)) = [])"])
  fix loop :: "config \<Rightarrow> client \<Rightarrow> clock \<Rightarrow> nat \<Rightarrow> int \<Rightarrow> trace \<Rightarrow> outcome option"
  fix cfg cl clk n iteration tr r
  assume IH: "\<And>cfg cl clk n iteration tr r. loop cfg cl clk n iteration tr = Some r \<Longrightarrow>
      0 \<le> iteration \<and> (0 \<le> MAX_ITERATIONS cfg \<longrightarrow> iteration \<le> MAX_ITERATIONS cfg) \<and>
         filter is_summary (messages tr) = [] \<longrightarrow>
         (ending r = LoopExited \<and> MAX_ITERATIONS cfg \<le> successes r \<and>
          (0 \<le> MAX_ITERATIONS cfg \<longrightarrow> successes r = MAX_ITERATIONS cfg) \<and>
          filter is_summary (messages (trace r)) = [HitMaxIterations (MAX_ITERATIONS cfg)]) \<or>
         (ending r = ReturnedEarly \<and> filter is_summary (messages (trace r)) = [])"
  assume step: "(if iteration < MAX_ITERATIONS cfg then
        (case mint_attempt cfg cl clk n iteration tr of
           Return t \<Rightarrow> Some \<lparr>ending = ReturnedEarly, successes = iteration, trace = t\<rparr>
         | Continue iteration' t \<Rightarrow> loop cfg cl clk (Suc n) iteration' t)
      else
        Some \<lparr>ending = LoopExited, successes = iteration,
              trace = (if iteration \<ge> MAX_ITERATIONS cfg
                       then log_line clk tr (HitMaxIterations (MAX_ITERATIONS cfg)) MAGENTA
                       else log_line clk tr StoppedEarly MAGENTA)\<rparr>) = Some r"
  show "0 \<le> iteration \<and> (0 \<le> MAX_ITERATIONS cfg \<longrightarrow> iteration \<le> MAX_ITERATIONS cfg) \<and>
         filter is_summary (messages tr) = [] \<longrightarrow>
         (ending r = LoopExited \<and> MAX_ITERATIONS cfg \<le> successes r \<and>
          (0 \<le> MAX_ITERATIONS cfg \<longrightarrow> successes r = MAX_ITERATIONS cfg) \<and>
          filter is_summary (messages (trace r)) = [HitMaxIterations (MAX_ITERATIONS cfg)]) \<or>
         (ending r = ReturnedEarly \<and> filter is_summary (messages (trace r)) = [])"
  proof (intro impI, elim conjE)
    assume inv: "0 \<le> iteration" "0 \<le> MAX_ITERATIONS cfg \<longrightarrow> iteration \<le> MAX_ITERATIONS cfg"
      "filter is_summary (messages tr) = []"
    show "(ending r = LoopExited \<and> MAX_ITERATIONS cfg \<le> successes r \<and>
          (0 \<le> MAX_ITERATIONS cfg \<longrightarrow> successes r = MAX_ITERATIONS cfg) \<and>
          filter is_summary (messages (trace r)) = [HitMaxIterations (MAX_ITERATIONS cfg)]) \<or>
         (ending r = ReturnedEarly \<and> filter is_summary (messages (trace r)) = [])"
    proof (cases "iteration < MAX_ITERATIONS cfg")
      case False
      with step inv show ?thesis by (auto simp: log_line_def)
    next
      case True
      show ?thesis
      proof (cases "mint_attempt cfg cl clk n iteration tr")
        case (Return t)
        with mint_attempt_keeps_summaries [of cfg cl clk n iteration tr] inv(3)
        have "filter is_summary (messages t) = []" by simp
        with True Return step show ?thesis by auto
      next
        case (Continue i t)
        with mint_attempt_keeps_summaries [of cfg cl clk n iteration tr] inv(3)
        have s: "filter is_summary (messages t) = []" by simp
        from mint_attempt_counter [OF Continue] True inv(1,2)
        have c: "0 \<le> i" "0 \<le> MAX_ITERATIONS cfg \<longrightarrow> i \<le> MAX_ITERATIONS cfg" by auto
        from True Continue step have "loop cfg cl clk (Suc n) i t = Some r" by simp
        from IH [OF this] c s show ?thesis by blast
      qed
    qed
  qed
qed

text \<open>
  The claim behind C9 says that a run which leaves the loop through its condition has
  counted exactly \<open>MAX_ITERATIONS\<close> successes. With a maximum of \<open>-1\<close>, which
  \<open>int(os.getenv("MAX_ITERATIONS"))\<close> accepts, the condition \<open>0 < -1\<close> is false at once:
  the loop is not entered, the counter is 0 and not \<open>-1\<close>, and the run prints
  "Hit max iterations (-1). Done!".
\<close>

theorem counter_above_negative_maximum:
  "main (example_config (- 1)) healthy_client example_clock =
     Some \<lparr>ending = LoopExited, successes = 0,
           trace =
             [Called IsConnected, Called (FromKey ''k1''),
              Printed GREEN ''INFO'' ''2025-01-01 00:00:00 UTC'' WebConnected,
              Printed MAGENTA ''INFO'' ''2025-01-01 00:00:00 UTC''
                (HitMaxIterations (- 1))]\<rparr> \<and>
   (0::int) \<noteq> MAX_ITERATIONS (example_config (- 1))"
  by (simp add: main_loop.simps run_defs example_defs)

text \<open>
  Claim C9, as amended. A run that leaves the loop through its condition has counted at
  least \<open>MAX_ITERATIONS\<close> successes, and exactly \<open>MAX_ITERATIONS\<close> when the maximum is not
  negative; so the branch after the loop that prints "Stopped early" is never taken:
  that line is printed by no run, and a run that ends in the handler of the setup or
  at a \<open>return\<close> inside the loop prints no summary line at all.
\<close>

theorem stopped_early_unreachable:
  assumes "main cfg cl clk = Some r"
  shows "(0 \<le> MAX_ITERATIONS cfg \<and> ending r = LoopExited \<longrightarrow>
            successes r = MAX_ITERATIONS cfg) \<and>
         (ending r = LoopExited \<longrightarrow> MAX_ITERATIONS cfg \<le> successes r) \<and>
         StoppedEarly \<notin> set (messages (trace r)) \<and>
         (ending r \<noteq> LoopExited \<longrightarrow> filter is_summary (messages (trace r)) = [])"
proof (cases "setup_web3 cfg cl []")
  case (Pair res tr)
  from setup_web3_trace [OF Pair] have tr: "messages tr = []" by auto
  show ?thesis
  proof (cases res)
    case (Inl e)
    with Pair assms tr show ?thesis by (auto simp: main_def log_line_def)
  next
    case (Inr a)
    with Pair assms have
      "main_loop cfg cl clk 0 0 (log_line clk tr WebConnected GREEN) = Some r"
      by (simp add: main_def)
    from main_loop_summary [OF this] tr
    have d: "(ending r = LoopExited \<and> MAX_ITERATIONS cfg \<le> successes r \<and>
          (0 \<le> MAX_ITERATIONS cfg \<longrightarrow> successes r = MAX_ITERATIONS cfg) \<and>
          filter is_summary (messages (trace r)) = [HitMaxIterations (MAX_ITERATIONS cfg)]) \<or>
         (ending r = ReturnedEarly \<and> filter is_summary (messages (trace r)) = [])"
      by (simp add: log_line_def)
    have "StoppedEarly \<notin> set (messages (trace r))"
    proof
      assume "StoppedEarly \<in> set (messages (trace r))"
      then have m: "StoppedEarly \<in> set (filter is_summary (messages (trace r)))" by simp
      from d have "set (filter is_summary (messages (trace r))) \<subseteq>
          {HitMaxIterations (MAX_ITERATIONS cfg)}"
        by (elim disjE conjE) (simp_all only: list.set subset_refl empty_subsetI)
      with m have "StoppedEarly \<in> {HitMaxIterations (MAX_ITERATIONS cfg)}" by (rule rev_subsetD)
      then show False by simp
    qed
    with d show ?thesis by auto
  qed
qed

theorem stopped_early_unreachable_witness:
  "main (example_config 1) healthy_client example_clock =
     Some \<lparr>ending = LoopExited, successes = 1,
       trace =
        [Called IsConnected, Called (FromKey ''k1''),
         Printed GREEN ''INFO'' ''2025-01-01 00:00:00 UTC'' WebConnected,
         Printed CYAN ''INFO'' ''2025-01-01 00:00:00 UTC'' (TryingMint 1 1),
         Called (GetBalance ''0xAbC1''),
         Printed WHITE ''INFO'' ''2025-01-01 00:00:00 UTC'' (BalanceGood 3),
         Called (GetTransactionCount ''0xAbC1''),
         Called (EstimateGas (estimate_request (example_config 1))),
         Called (SignTransaction (new_transaction (example_config 1) 0) ''k1''),
         Called (SendRawTransaction ''raw''),
         Printed GREEN ''INFO'' ''2025-01-01 00:00:00 UTC'' (TxSent ''hash''),
         Called (WaitForTransactionReceipt ''hash'' 300),
         Printed CYAN ''INFO'' ''2025-01-01 00:00:00 UTC'' (MinedInBlock 100),
         Printed GREEN ''INFO'' ''2025-01-01 00:00:00 UTC'' MintSuccessful,
         Printed MAGENTA ''INFO'' ''2025-01-01 00:00:00 UTC'' (HitMaxIterations 1)]\<rparr> \<and>
   0 \<le> MAX_ITERATIONS (example_config 1) \<and> (1::int) = MAX_ITERATIONS (example_config 1) \<and>
   main (example_config 1) (healthy_client\<lparr>get_balance := \<lambda>n a. Inr 0\<rparr>) example_clock =
     Some \<lparr>ending = ReturnedEarly, successes = 0,
       trace =
        [Called IsConnected, Called (FromKey ''k1''),
         Printed GREEN ''INFO'' ''2025-01-01 00:00:00 UTC'' WebConnected,
         Printed CYAN ''INFO'' ''2025-01-01 00:00:00 UTC'' (TryingMint 1 1),
         Called (GetBalance ''0xAbC1''),
         Printed YELLOW ''INFO'' ''2025-01-01 00:00:00 UTC'' (LowBalance 0 (1 / 2))]\<rparr>"
proof -
  let ?cfg = "example_config 1"
  let ?low = "healthy_client\<lparr>get_balance := \<lambda>n a. Inr 0\<rparr>"
  have a: "main ?cfg healthy_client example_clock =
     Some \<lparr>ending = LoopExited, successes = 1,
       trace =
        [Called IsConnected, Called (FromKey ''k1''),
         Printed GREEN ''INFO'' ''2025-01-01 00:00:00 UTC'' WebConnected,
         Printed CYAN ''INFO'' ''2025-01-01 00:00:00 UTC'' (TryingMint 1 1),
         Called (GetBalance ''0xAbC1''),
         Printed WHITE ''INFO'' ''2025-01-01 00:00:00 UTC'' (BalanceGood 3),
         Called (GetTransactionCount ''0xAbC1''),
         Called (EstimateGas (estimate_request ?cfg)),
         Called (SignTransaction (new_transaction ?cfg 0) ''k1''),
         Called (SendRawTransaction ''raw''),
         Printed GREEN ''INFO'' ''2025-01-01 00:00:00 UTC'' (TxSent ''hash''),
         Called (WaitForTransactionReceipt ''hash'' 300),
         Printed CYAN ''INFO'' ''2025-01-01 00:00:00 UTC'' (MinedInBlock 100),
         Printed GREEN ''INFO'' ''2025-01-01 00:00:00 UTC'' MintSuccessful,
         Printed MAGENTA ''INFO'' ''2025-01-01 00:00:00 UTC'' (HitMaxIterations 1)]\<rparr>"
    by (simp add: main_loop.simps run_defs example_defs)
  have b: "main ?cfg ?low example_clock =
     Some \<lparr>ending = ReturnedEarly, successes = 0,
       trace =
        [Called IsConnected, Called (FromKey ''k1''),
         Printed GREEN ''INFO'' ''2025-01-01 00:00:00 UTC'' WebConnected,
         Printed CYAN ''INFO'' ''2025-01-01 00:00:00 UTC'' (TryingMint 1 1),
         Called (GetBalance ''0xAbC1''),
         Printed YELLOW ''INFO'' ''2025-01-01 00:00:00 UTC'' (LowBalance 0 (1 / 2))]\<rparr>"
    by (simp add: main_loop.simps run_defs example_defs)
  from stopped_early_unreachable [OF a] stopped_early_unreachable [OF b] a b
  show ?thesis by (simp add: example_config_def)
qed

subsection \<open>Receipts that never succeed\<close>

lemma unsuccessful_pass:
  assumes "get_balance cl n (FROM_ADDRESS cfg) = Inr b" and "from_wei cl b = Inr e"
    and "\<not> e < MIN_BALANCE_SOMI cfg"
    and "get_transaction_count cl n (FROM_ADDRESS cfg) = Inr c"
    and "estimate_gas cl n (estimate_request cfg) = Inr g"
    and "sign_transaction cl n (new_transaction cfg c) (PRIVATE_KEY cfg) = Inr raw"
    and "send_raw_transaction cl n raw = Inr h"
    and "wait_for_transaction_receipt cl n h 300 = Inr rc" and "status rc \<noteq> 1"
  shows "\<exists>t. mint_attempt cfg cl clk n iteration tr = Continue iteration t"
  using assms
  by (simp add: mint_attempt_def balance_check_def build_tx_def gas_estimate_def sign_tx_def
      send_tx_def Let_def)

text \<open>
  When every call returns and no receipt has status 1, the counter never moves and the
  loop never ends: the run does not return.
\<close>

lemma failed_receipts_never_return:
  assumes pos: "0 < MAX_ITERATIONS cfg"
    and bal: "\<forall>n. \<exists>b e. get_balance cl n (FROM_ADDRESS cfg) = Inr b \<and> from_wei cl b = Inr e \<and>
                 \<not> e < MIN_BALANCE_SOMI cfg"
    and nonce: "\<forall>n. \<exists>c. get_transaction_count cl n (FROM_ADDRESS cfg) = Inr c"
    and gas: "\<forall>n. \<exists>g. estimate_gas cl n (estimate_request cfg) = Inr g"
    and sign: "\<forall>n tx. \<exists>raw. sign_transaction cl n tx (PRIVATE_KEY cfg) = Inr raw"
    and send: "\<forall>n raw. \<exists>h. send_raw_transaction cl n raw = Inr h"
    and wait: "\<forall>n h. \<exists>rc. wait_for_transaction_receipt cl n h 300 = Inr rc \<and> status rc \<noteq> 1"
  shows "main_loop cfg cl clk n 0 tr = None"
proof (rule ccontr)
  assume "main_loop cfg cl clk n 0 tr \<noteq> None"
  then obtain r where r: "main_loop cfg cl clk n 0 tr = Some r" by blast
  have "cfg = cfg \<and> cl = cl \<and> (0::int) = 0 \<longrightarrow> False"
  proof (rule main_loop.raw_induct [OF _ r, where P = "\<lambda>cfg' cl' clk' n' iteration' tr' r'.
      cfg' = cfg \<and> cl' = cl \<and> iteration' = 0 \<longrightarrow> False"])
    fix loop :: "config \<Rightarrow> client \<Rightarrow> clock \<Rightarrow> nat \<Rightarrow> int \<Rightarrow> trace \<Rightarrow> outcome option"
    fix cfg' cl' clk' n' iteration' tr' r'
    assume IH: "\<And>cfg' cl' clk' n' iteration' tr' r'.
        loop cfg' cl' clk' n' iteration' tr' = Some r' \<Longrightarrow>
        cfg' = cfg \<and> cl' = cl \<and> iteration' = 0 \<longrightarrow> False"
    assume step: "(if iteration' < MAX_ITERATIONS cfg' then
        (case mint_attempt cfg' cl' clk' n' iteration' tr' of
           Return t \<Rightarrow> Some \<lparr>ending = ReturnedEarly, successes = iteration', trace = t\<rparr>
         | Continue i t \<Rightarrow> loop cfg' cl' clk' (Suc n') i t)
      else
        Some \<lparr>ending = LoopExited, successes = iteration',
              trace = (if iteration' \<ge> MAX_ITERATIONS cfg'
                       then log_line clk' tr' (HitMaxIterations (MAX_ITERATIONS cfg')) MAGENTA
                       else log_line clk' tr' StoppedEarly MAGENTA)\<rparr>) = Some r'"
    show "cfg' = cfg \<and> cl' = cl \<and> iteration' = 0 \<longrightarrow> False"
    proof (intro impI, elim conjE)
      assume eq: "cfg' = cfg" "cl' = cl" "iteration' = 0"
      from bal obtain b e where b: "get_balance cl n' (FROM_ADDRESS cfg) = Inr b"
        "from_wei cl b = Inr e" "\<not> e < MIN_BALANCE_SOMI cfg" by blast
      from nonce obtain c where c: "get_transaction_count cl n' (FROM_ADDRESS cfg) = Inr c"
        by blast
      from gas obtain g where g: "estimate_gas cl n' (estimate_request cfg) = Inr g" by blast
      from sign obtain raw where
        s: "sign_transaction cl n' (new_transaction cfg c) (PRIVATE_KEY cfg) = Inr raw"
        by blast
      from send obtain h where h: "send_raw_transaction cl n' raw = Inr h" by blast
      from wait obtain rc where
        w: "wait_for_transaction_receipt cl n' h 300 = Inr rc" "status rc \<noteq> 1" by blast
      from unsuccessful_pass [OF b c g s h w, of clk' 0 tr'] obtain t where
        "mint_attempt cfg cl clk' n' 0 tr' = Continue 0 t" by blast
      with step eq pos have "loop cfg cl clk' (Suc n') 0 t = Some r'" by simp
      from IH [OF this] show False by simp
    qed
  qed
  then show False by simp
qed

end
